theory Spec2Isabelle
  imports Main "HOL-Library.Word"
begin

section \<open>Common conventions\<close>

text \<open>
  A Go \<open>error\<close> is carried as its message; the nil error is \<open>None\<close>. A call either
  returns or panics; where the source can panic (a nil dereference, a reflection
  panic) the model has a \<open>Panic\<close> branch. A function with effects takes the process
  state and returns its result with the new state.
\<close>

type_synonym error = string

datatype 'a outcome = Panic string | Done 'a

text \<open>The message of the panic of a nil dereference or a method call on a nil interface.\<close>

definition nil_dereference :: string where
  "nil_dereference = ''runtime error: invalid memory address or nil pointer dereference''"

section \<open>Package attribute (src/attribute/attribute.go)\<close>

text \<open>
  Go values are modelled with their dynamic type. \<open>int64\<close> is a 64-bit word; Go's
  \<open>int\<close> is taken at its 64-bit width; a \<open>float64\<close> is carried as its IEEE-754 bit
  pattern (the facade never computes with it, it only stores and forwards it).
\<close>

type_synonym int64 = "64 word"
type_synonym go_int = "64 word"
type_synonym float64 = "64 word"

text \<open>
  A value of Go's \<open>any\<close>, as the type switch of \<open>New\<close> sees it. The ten concrete types
  the switch names have a constructor each. Every other dynamic type (and the nil
  interface) is \<open>AnyOther m f\<close>. \<open>m\<close> says what the value's \<open>String()\<close> method does:
  \<open>None\<close> when the dynamic type does not implement \<open>fmt.Stringer\<close>, \<open>Some (Done s)\<close>
  when it does and the call returns \<open>s\<close>, \<open>Some (Panic msg)\<close> when it does and the
  call panics, as a method that reads its receiver does on a typed nil pointer. \<open>f\<close> is
  what \<open>fmt.Sprintf("%v", v)\<close> prints for it.
\<close>

datatype go_any =
    AnyBool bool
  | AnyBoolSlice "bool list"
  | AnyFloat64 float64
  | AnyFloat64Slice "float64 list"
  | AnyInt go_int
  | AnyIntSlice "go_int list"
  | AnyInt64 int64
  | AnyInt64Slice "int64 list"
  | AnyString string
  | AnyStringSlice "string list"
  | AnyOther "string outcome option" string

text \<open>
  The OpenTelemetry \<open>attribute.Value\<close>: a type tag with its payload; \<open>INVALID\<close> is the
  zero value. \<open>attribute.KeyValue\<close> pairs it with a key.
\<close>

datatype attribute_Value =
    INVALID
  | BOOL bool
  | INT64 int64
  | FLOAT64 float64
  | STRING string
  | BOOLSLICE "bool list"
  | INT64SLICE "int64 list"
  | FLOAT64SLICE "float64 list"
  | STRINGSLICE "string list"

record KeyValue =
  Key :: string
  Value :: attribute_Value

text \<open>The constructors of the OpenTelemetry attribute package that \<open>New\<close> passes on to.
  \<open>attribute.Int\<close> and \<open>attribute.IntSlice\<close> convert to \<open>int64\<close>.\<close>

definition attribute_Bool :: "string \<Rightarrow> bool \<Rightarrow> KeyValue" where
  "attribute_Bool k v = \<lparr>Key = k, Value = BOOL v\<rparr>"

definition attribute_BoolSlice :: "string \<Rightarrow> bool list \<Rightarrow> KeyValue" where
  "attribute_BoolSlice k v = \<lparr>Key = k, Value = BOOLSLICE v\<rparr>"

definition attribute_Float64 :: "string \<Rightarrow> float64 \<Rightarrow> KeyValue" where
  "attribute_Float64 k v = \<lparr>Key = k, Value = FLOAT64 v\<rparr>"

definition attribute_Float64Slice :: "string \<Rightarrow> float64 list \<Rightarrow> KeyValue" where
  "attribute_Float64Slice k v = \<lparr>Key = k, Value = FLOAT64SLICE v\<rparr>"

definition attribute_Int64 :: "string \<Rightarrow> int64 \<Rightarrow> KeyValue" where
  "attribute_Int64 k v = \<lparr>Key = k, Value = INT64 v\<rparr>"

definition attribute_Int64Slice :: "string \<Rightarrow> int64 list \<Rightarrow> KeyValue" where
  "attribute_Int64Slice k v = \<lparr>Key = k, Value = INT64SLICE v\<rparr>"

definition attribute_Int :: "string \<Rightarrow> go_int \<Rightarrow> KeyValue" where
  "attribute_Int k v = attribute_Int64 k (scast v)"

definition attribute_IntSlice :: "string \<Rightarrow> go_int list \<Rightarrow> KeyValue" where
  "attribute_IntSlice k v = attribute_Int64Slice k (map scast v)"

definition attribute_String :: "string \<Rightarrow> string \<Rightarrow> KeyValue" where
  "attribute_String k v = \<lparr>Key = k, Value = STRING v\<rparr>"

definition attribute_StringSlice :: "string \<Rightarrow> string list \<Rightarrow> KeyValue" where
  "attribute_StringSlice k v = \<lparr>Key = k, Value = STRINGSLICE v\<rparr>"

text \<open>\<open>Value.AsInterface\<close>: the Go value an attribute value holds.\<close>

fun AsInterface :: "attribute_Value \<Rightarrow> go_any" where
  "AsInterface (BOOL v) = AnyBool v"
| "AsInterface (BOOLSLICE v) = AnyBoolSlice v"
| "AsInterface (INT64 v) = AnyInt64 v"
| "AsInterface (INT64SLICE v) = AnyInt64Slice v"
| "AsInterface (FLOAT64 v) = AnyFloat64 v"
| "AsInterface (FLOAT64SLICE v) = AnyFloat64Slice v"
| "AsInterface (STRING v) = AnyString v"
| "AsInterface (STRINGSLICE v) = AnyStringSlice v"
| "AsInterface INVALID = AnyOther None ''<nil>''"

text \<open>\<open>type Attr struct { attribute.KeyValue }\<close>\<close>

datatype Attr = Attr (KeyValue: KeyValue)

definition new :: "string \<Rightarrow> 'a \<Rightarrow> (string \<Rightarrow> 'a \<Rightarrow> KeyValue) \<Rightarrow> Attr" where
  "new key v convert = Attr (convert key v)"

text \<open>
  \<open>New\<close>: the type switch, in the source's order. The \<open>fmt.Stringer\<close> case calls
  \<open>v.String()\<close> with nothing around it, so a panic of that call is a panic of \<open>New\<close>.
\<close>

fun New :: "string \<Rightarrow> go_any \<Rightarrow> Attr outcome" where
  "New key (AnyBool v) = Done (new key v attribute_Bool)"
| "New key (AnyBoolSlice v) = Done (new key v attribute_BoolSlice)"
| "New key (AnyFloat64 v) = Done (new key v attribute_Float64)"
| "New key (AnyFloat64Slice v) = Done (new key v attribute_Float64Slice)"
| "New key (AnyInt v) = Done (new key v attribute_Int)"
| "New key (AnyIntSlice v) = Done (new key v attribute_IntSlice)"
| "New key (AnyInt64 v) = Done (new key v attribute_Int64)"
| "New key (AnyInt64Slice v) = Done (new key v attribute_Int64Slice)"
| "New key (AnyString v) = Done (new key v attribute_String)"
| "New key (AnyStringSlice v) = Done (new key v attribute_StringSlice)"
| "New key (AnyOther (Some (Panic msg)) f) = Panic msg"
| "New key (AnyOther (Some (Done s)) f) = Done (new key s attribute_String)"
| "New key (AnyOther None f) = Done (Attr (attribute_String key f))"

text \<open>\<open>ToKeyValues\<close>: the wrapped key/values, in order.\<close>

definition ToKeyValues :: "Attr list \<Rightarrow> KeyValue list" where
  "ToKeyValues attrs = map KeyValue attrs"

section \<open>Package tracing: types (src/unnamed/part_000)\<close>

text \<open>
  A span context: trace id and span id in their textual form (32 and 16 lower-case
  hexadecimal digits), the sampling flag, and whether it came from a propagation
  header. The zero span context has empty ids.
\<close>

record SpanContext =
  TraceID :: string
  SpanID :: string
  Sampled :: bool
  Remote :: bool

definition emptySpanContext :: SpanContext where
  "emptySpanContext = \<lparr>TraceID = [], SpanID = [], Sampled = False, Remote = False\<rparr>"

definition is_hex :: "char \<Rightarrow> bool" where
  "is_hex c = (c \<in> set ''0123456789abcdef'')"

definition valid_id :: "nat \<Rightarrow> string \<Rightarrow> bool" where
  "valid_id n s = (length s = n \<and> list_all is_hex s \<and> \<not> list_all (\<lambda>c. c = CHR ''0'') s)"

definition IsValid :: "SpanContext \<Rightarrow> bool" where
  "IsValid sc = (valid_id 32 (TraceID sc) \<and> valid_id 16 (SpanID sc))"

text \<open>
  \<open>type StatusCode codes.Code\<close>, an unsigned 32-bit integer, with the three constants
  of the source.
\<close>

type_synonym StatusCode = "32 word"

definition StatusUnset :: StatusCode where "StatusUnset = 0"
definition StatusError :: StatusCode where "StatusError = 1"
definition StatusOk :: StatusCode where "StatusOk = 2"

definition codes_Unset :: "32 word" where "codes_Unset = 0"
definition codes_Error :: "32 word" where "codes_Error = 1"
definition codes_Ok :: "32 word" where "codes_Ok = 2"

text \<open>
  The tracing SDK's span, as a value of the \<open>trace.Span\<close> interface. A non-recording
  span (the no-op tracer's, or the wrapper of an extracted remote span context) only
  carries a span context. A recording span is an object of the SDK, named by its
  index in the state's span store.
\<close>

datatype trace_Span =
    nonRecordingSpan SpanContext
  | recordingSpan nat SpanContext

record span_data =
  sd_name :: string
  sd_context :: SpanContext
  sd_parent :: SpanContext
  sd_attributes :: "KeyValue list"
  sd_events :: "(string \<times> KeyValue list) list"
  sd_status_code :: "32 word"
  sd_status_description :: string
  sd_ended :: bool

text \<open>\<open>type Span struct { traceSpan trace.Span }\<close>\<close>

datatype Span = Span (traceSpan: "trace_Span option")

text \<open>
  A \<open>context.Context\<close>, as far as the facade reads it: the span it carries, if any.
\<close>

record Context =
  ctx_span :: "trace_Span option"

definition background :: Context where
  "background = \<lparr>ctx_span = None\<rparr>"

datatype Tracer = noopTracer | sdkTracer string

section \<open>Package metrics: types (src/metrics/metrics.go)\<close>

text \<open>
  The fourteen instrument kinds of the metrics SDK, and an SDK instrument as the
  wrappers hold it: the value of an interface such as \<open>metric.Int64Counter\<close>, named
  by its kind, its name and the scope of the meter that made it.
\<close>

datatype instrument_kind =
    KInt64Counter | KFloat64Counter | KInt64UpDownCounter | KFloat64UpDownCounter
  | KInt64ObservableCounter | KFloat64ObservableCounter
  | KInt64ObservableUpDownCounter | KFloat64ObservableUpDownCounter
  | KInt64Gauge | KFloat64Gauge | KInt64ObservableGauge | KFloat64ObservableGauge
  | KInt64Histogram | KFloat64Histogram

record instrument =
  inst_kind :: instrument_kind
  inst_name :: string
  inst_scope :: string

datatype Meter = Meter string

text \<open>
  The wrapper structs. An interface-typed field is \<open>None\<close> when nil (its zero value).
\<close>

datatype Int64Counter = Int64Counter "instrument option"

datatype Float64Counter = Float64Counter "instrument option"

datatype Int64UpDownCounter = Int64UpDownCounter "instrument option"

datatype Float64UpDownCounter = Float64UpDownCounter "instrument option"

datatype Int64ObservableCounter = Int64ObservableCounter "instrument option" "Meter option"

datatype Float64ObservableCounter = Float64ObservableCounter "instrument option" "Meter option"

datatype Int64ObservableUpDownCounter = Int64ObservableUpDownCounter "instrument option" "Meter option"

datatype Float64ObservableUpDownCounter = Float64ObservableUpDownCounter "instrument option" "Meter option"

datatype Int64Gauge = Int64Gauge "instrument option"

datatype Float64Gauge = Float64Gauge "instrument option"

datatype Int64ObservableGauge = Int64ObservableGauge "instrument option" "Meter option"

datatype Float64ObservableGauge = Float64ObservableGauge "instrument option" "Meter option"

datatype Int64Histogram = Int64Histogram "instrument option"

datatype Float64Histogram = Float64Histogram "instrument option"

text \<open>
  A field of the user's metrics struct, as reflection sees it: its declared name,
  whether reflection may set it (an exported field), and its value by declared type.
  A field whose type is a pointer to one of the fourteen wrappers holds \<open>None\<close> for
  the nil pointer; a field of any other type is \<open>FOther\<close>.
\<close>

datatype instrument_field =
    FInt64Counter "Int64Counter option"
  | FFloat64Counter "Float64Counter option"
  | FInt64UpDownCounter "Int64UpDownCounter option"
  | FFloat64UpDownCounter "Float64UpDownCounter option"
  | FInt64ObservableCounter "Int64ObservableCounter option"
  | FFloat64ObservableCounter "Float64ObservableCounter option"
  | FInt64ObservableUpDownCounter "Int64ObservableUpDownCounter option"
  | FFloat64ObservableUpDownCounter "Float64ObservableUpDownCounter option"
  | FInt64Gauge "Int64Gauge option"
  | FFloat64Gauge "Float64Gauge option"
  | FInt64ObservableGauge "Int64ObservableGauge option"
  | FFloat64ObservableGauge "Float64ObservableGauge option"
  | FInt64Histogram "Int64Histogram option"
  | FFloat64Histogram "Float64Histogram option"
  | FOther

record struct_field =
  field_Name :: string
  field_CanSet :: bool
  field_Value :: instrument_field

text \<open>
  What a pointer \<open>*T\<close> points to: a struct with its fields, or a value of a type that
  is not a struct. A \<open>*T\<close> is the name of \<open>T\<close> with an address, \<open>None\<close> for the nil
  pointer. A value of \<open>any\<close> holding a pointer is the nil interface or a dynamic
  type with the pointer.
\<close>

datatype pointee = StructVal "struct_field list" | NonStruct

record pointer =
  elem_type :: string
  address :: "nat option"

datatype any_pointer = nilAny | anyPtr pointer

text \<open>
  A measurement handed to the SDK: the instrument or observer it was reported to,
  the value, and the attribute set. An attribute set keeps one value per key, the
  last one given.
\<close>

datatype number = I64 int64 | F64 float64

datatype target = ToInstrument instrument | ToObserver nat

record data_point =
  dp_target :: target
  dp_value :: number
  dp_attributes :: "string \<rightharpoonup> attribute_Value"

definition attribute_NewSet :: "KeyValue list \<Rightarrow> (string \<rightharpoonup> attribute_Value)" where
  "attribute_NewSet kvs = map_of (rev (map (\<lambda>kv. (Key kv, Value kv)) kvs))"

section \<open>Package log: types (src/unnamed/part_002)\<close>

text \<open>
  A \<open>slog\<close> level is an integer (\<open>DEBUG = -4\<close>, \<open>INFO = 0\<close>, \<open>WARN = 4\<close>,
  \<open>ERROR = 8\<close>). A record is its level, its message and its attributes in order. A
  handler is what the logger asks of it: whether a level is enabled, the attributes
  baked into it, and where its records go: an \<open>io.Writer\<close> (by number) or the
  log exporter of the SDK.
\<close>

type_synonym slog_Level = int

definition LevelDebug :: slog_Level where "LevelDebug = - 4"
definition LevelInfo :: slog_Level where "LevelInfo = 0"
definition LevelWarn :: slog_Level where "LevelWarn = 4"
definition LevelError :: slog_Level where "LevelError = 8"

type_synonym slog_Attr = "string \<times> go_any"

record slog_Record =
  rec_Level :: slog_Level
  rec_Message :: string
  rec_Attrs :: "slog_Attr list"

datatype writer = Writer nat | OtelLogs

record slog_Handler =
  h_Enabled :: "slog_Level \<Rightarrow> bool"
  h_Attrs :: "slog_Attr list"
  h_Writer :: writer

text \<open>
  The value of one of the package variables \<open>Debug\<close>, \<open>Info\<close>, \<open>Warn\<close>, \<open>Error\<close>:
  the no-op function they start as, or the closure \<open>InitLogger\<close> stores, which
  captures the logger over the fan-out of its handlers.
\<close>

datatype log_func = noopLogWithContext | logWith "slog_Handler list"

section \<open>The process state and the world outside\<close>

datatype provider = TracerProvider | MeterProvider | LoggerProvider

text \<open>
  What the facade does not decide, taken as parameters: the environment variables,
  whether building an exporter, creating an instrument, registering a callback or
  shutting a provider down returns an error, the level parser of \<open>slog\<close>, the ids the
  tracing SDK generates, and the text of \<open>debug.Stack()\<close>.
\<close>

record ext =
  Getenv :: "string \<Rightarrow> string"
  exporter_error :: "provider \<Rightarrow> bool \<Rightarrow> bool \<Rightarrow> error option"
  instrument_error :: "instrument_kind \<Rightarrow> string \<Rightarrow> error option"
  register_error :: "instrument option \<Rightarrow> error option"
  shutdown_error :: "provider \<Rightarrow> error option"
  UnmarshalText :: "string \<Rightarrow> error + slog_Level"
  generate_ids :: "nat \<Rightarrow> string \<times> string"
  debug_Stack :: string

text \<open>
  The process state: the package variables of the facade (\<open>tracer\<close>,
  \<open>metricsInstance\<close>, the four log functions), the heap the metrics struct lives
  in, and what the SDK and the writers have received so far.
\<close>

record world =
  tracer :: Tracer
  metricsInstance :: any_pointer
  log_Debug :: log_func
  log_Info :: log_func
  log_Warn :: log_func
  log_Error :: log_func
  heap :: "nat \<Rightarrow> pointee"
  spans :: "span_data list"
  exported :: "span_data list"
  ids_used :: nat
  points :: "data_point list"
  callbacks :: "(nat \<times> instrument) list"
  written :: "writer \<Rightarrow> slog_Record list"
  shutdowns :: "provider list"

text \<open>The state a process starts in: the initial values of the package variables.\<close>

definition world0 :: world where
  "world0 = \<lparr>tracer = noopTracer, metricsInstance = nilAny,
     log_Debug = noopLogWithContext, log_Info = noopLogWithContext,
     log_Warn = noopLogWithContext, log_Error = noopLogWithContext,
     heap = (\<lambda>_. NonStruct), spans = [], exported = [], ids_used = 0, points = [],
     callbacks = [], written = (\<lambda>_. []), shutdowns = []\<rparr>"

text \<open>A shutdown function: \<open>func(context.Context) error\<close>.\<close>

type_synonym shutdown = "Context \<Rightarrow> world \<Rightarrow> error option \<times> world"

text \<open>\<open>provider.Shutdown\<close>: the SDK records the call; its error is the SDK's.\<close>

definition provider_Shutdown :: "ext \<Rightarrow> provider \<Rightarrow> shutdown" where
  "provider_Shutdown E p ctx w = (shutdown_error E p, w\<lparr>shutdowns := shutdowns w @ [p]\<rparr>)"

section \<open>Package metrics: functions (src/metrics/metrics.go)\<close>

definition newAttributeSet :: "Attr list \<Rightarrow> (string \<rightharpoonup> attribute_Value)" where
  "newAttributeSet attrs = attribute_NewSet (map KeyValue attrs)"

text \<open>
  The SDK side of a measurement. Calling a method on a nil interface value panics;
  otherwise the SDK receives the data point.
\<close>

fun instrument_Record ::
  "instrument option \<Rightarrow> Context \<Rightarrow> number \<Rightarrow> (string \<rightharpoonup> attribute_Value) \<Rightarrow> world
    \<Rightarrow> unit outcome \<times> world" where
  "instrument_Record None ctx v as w = (Panic nil_dereference, w)"
| "instrument_Record (Some i) ctx v as w =
     (Done (), w\<lparr>points := points w @
        [\<lparr>dp_target = ToInstrument i, dp_value = v, dp_attributes = as\<rparr>]\<rparr>)"

fun observer_Observe ::
  "nat option \<Rightarrow> number \<Rightarrow> (string \<rightharpoonup> attribute_Value) \<Rightarrow> world \<Rightarrow> unit outcome \<times> world" where
  "observer_Observe None v as w = (Panic nil_dereference, w)"
| "observer_Observe (Some ob) v as w =
     (Done (), w\<lparr>points := points w @
        [\<lparr>dp_target = ToObserver ob, dp_value = v, dp_attributes = as\<rparr>]\<rparr>)"

text \<open>
  \<open>meter.RegisterCallback(callback, instrument)\<close>: the SDK keeps the callback (named
  by a number) and returns a registration, or returns its error.
\<close>

fun meter_RegisterCallback ::
  "ext \<Rightarrow> Meter option \<Rightarrow> nat \<Rightarrow> instrument option \<Rightarrow> world
    \<Rightarrow> (nat option \<times> error option) outcome \<times> world" where
  "meter_RegisterCallback E None callback inst w = (Panic nil_dereference, w)"
| "meter_RegisterCallback E (Some m) callback inst w =
     (case register_error E inst of
        Some err \<Rightarrow> (Done (None, Some err), w)
      | None \<Rightarrow>
          (case inst of
             None \<Rightarrow> (Done (Some (length (callbacks w)), None), w)
           | Some i \<Rightarrow> (Done (Some (length (callbacks w)), None),
                        w\<lparr>callbacks := callbacks w @ [(callback, i)]\<rparr>)))"

text \<open>The methods of the wrappers, each guarded by the nil check of the source.\<close>

fun Int64Counter_Add ::
  "Int64Counter option \<Rightarrow> Context \<Rightarrow> int64 \<Rightarrow> Attr list \<Rightarrow> world \<Rightarrow> unit outcome \<times> world" where
  "Int64Counter_Add None ctx v attrs w = (Done (), w)"
| "Int64Counter_Add (Some (Int64Counter c)) ctx v attrs w =
     instrument_Record c ctx (I64 v) (newAttributeSet attrs) w"

fun Float64Counter_Add ::
  "Float64Counter option \<Rightarrow> Context \<Rightarrow> float64 \<Rightarrow> Attr list \<Rightarrow> world \<Rightarrow> unit outcome \<times> world" where
  "Float64Counter_Add None ctx v attrs w = (Done (), w)"
| "Float64Counter_Add (Some (Float64Counter c)) ctx v attrs w =
     instrument_Record c ctx (F64 v) (newAttributeSet attrs) w"

fun Int64UpDownCounter_Add ::
  "Int64UpDownCounter option \<Rightarrow> Context \<Rightarrow> int64 \<Rightarrow> Attr list \<Rightarrow> world \<Rightarrow> unit outcome \<times> world" where
  "Int64UpDownCounter_Add None ctx v attrs w = (Done (), w)"
| "Int64UpDownCounter_Add (Some (Int64UpDownCounter c)) ctx v attrs w =
     instrument_Record c ctx (I64 v) (newAttributeSet attrs) w"

fun Float64UpDownCounter_Add ::
  "Float64UpDownCounter option \<Rightarrow> Context \<Rightarrow> float64 \<Rightarrow> Attr list \<Rightarrow> world \<Rightarrow> unit outcome \<times> world" where
  "Float64UpDownCounter_Add None ctx v attrs w = (Done (), w)"
| "Float64UpDownCounter_Add (Some (Float64UpDownCounter c)) ctx v attrs w =
     instrument_Record c ctx (F64 v) (newAttributeSet attrs) w"

fun Int64ObservableCounter_Observe ::
  "Int64ObservableCounter option \<Rightarrow> nat option \<Rightarrow> int64 \<Rightarrow> Attr list \<Rightarrow> world \<Rightarrow> unit outcome \<times> world" where
  "Int64ObservableCounter_Observe None observer v attrs w = (Done (), w)"
| "Int64ObservableCounter_Observe (Some c) observer v attrs w =
     observer_Observe observer (I64 v) (newAttributeSet attrs) w"

fun Int64ObservableCounter_RegisterCallback ::
  "ext \<Rightarrow> Int64ObservableCounter option \<Rightarrow> nat \<Rightarrow> world
    \<Rightarrow> (nat option \<times> error option) outcome \<times> world" where
  "Int64ObservableCounter_RegisterCallback E None callback w = (Done (None, None), w)"
| "Int64ObservableCounter_RegisterCallback E (Some (Int64ObservableCounter inst m)) callback w =
     meter_RegisterCallback E m callback inst w"

fun Float64ObservableCounter_Observe ::
  "Float64ObservableCounter option \<Rightarrow> nat option \<Rightarrow> float64 \<Rightarrow> Attr list \<Rightarrow> world \<Rightarrow> unit outcome \<times> world" where
  "Float64ObservableCounter_Observe None observer v attrs w = (Done (), w)"
| "Float64ObservableCounter_Observe (Some c) observer v attrs w =
     observer_Observe observer (F64 v) (newAttributeSet attrs) w"

fun Float64ObservableCounter_RegisterCallback ::
  "ext \<Rightarrow> Float64ObservableCounter option \<Rightarrow> nat \<Rightarrow> world
    \<Rightarrow> (nat option \<times> error option) outcome \<times> world" where
  "Float64ObservableCounter_RegisterCallback E None callback w = (Done (None, None), w)"
| "Float64ObservableCounter_RegisterCallback E (Some (Float64ObservableCounter inst m)) callback w =
     meter_RegisterCallback E m callback inst w"

fun Int64ObservableUpDownCounter_Observe ::
  "Int64ObservableUpDownCounter option \<Rightarrow> nat option \<Rightarrow> int64 \<Rightarrow> Attr list \<Rightarrow> world \<Rightarrow> unit outcome \<times> world" where
  "Int64ObservableUpDownCounter_Observe None observer v attrs w = (Done (), w)"
| "Int64ObservableUpDownCounter_Observe (Some c) observer v attrs w =
     observer_Observe observer (I64 v) (newAttributeSet attrs) w"

fun Int64ObservableUpDownCounter_RegisterCallback ::
  "ext \<Rightarrow> Int64ObservableUpDownCounter option \<Rightarrow> nat \<Rightarrow> world
    \<Rightarrow> (nat option \<times> error option) outcome \<times> world" where
  "Int64ObservableUpDownCounter_RegisterCallback E None callback w = (Done (None, None), w)"
| "Int64ObservableUpDownCounter_RegisterCallback E (Some (Int64ObservableUpDownCounter inst m)) callback w =
     meter_RegisterCallback E m callback inst w"

fun Float64ObservableUpDownCounter_Observe ::
  "Float64ObservableUpDownCounter option \<Rightarrow> nat option \<Rightarrow> float64 \<Rightarrow> Attr list \<Rightarrow> world \<Rightarrow> unit outcome \<times> world" where
  "Float64ObservableUpDownCounter_Observe None observer v attrs w = (Done (), w)"
| "Float64ObservableUpDownCounter_Observe (Some c) observer v attrs w =
     observer_Observe observer (F64 v) (newAttributeSet attrs) w"

fun Float64ObservableUpDownCounter_RegisterCallback ::
  "ext \<Rightarrow> Float64ObservableUpDownCounter option \<Rightarrow> nat \<Rightarrow> world
    \<Rightarrow> (nat option \<times> error option) outcome \<times> world" where
  "Float64ObservableUpDownCounter_RegisterCallback E None callback w = (Done (None, None), w)"
| "Float64ObservableUpDownCounter_RegisterCallback E (Some (Float64ObservableUpDownCounter inst m)) callback w =
     meter_RegisterCallback E m callback inst w"

fun Int64Gauge_Record ::
  "Int64Gauge option \<Rightarrow> Context \<Rightarrow> int64 \<Rightarrow> Attr list \<Rightarrow> world \<Rightarrow> unit outcome \<times> world" where
  "Int64Gauge_Record None ctx v attrs w = (Done (), w)"
| "Int64Gauge_Record (Some (Int64Gauge g)) ctx v attrs w =
     instrument_Record g ctx (I64 v) (newAttributeSet attrs) w"

fun Float64Gauge_Record ::
  "Float64Gauge option \<Rightarrow> Context \<Rightarrow> float64 \<Rightarrow> Attr list \<Rightarrow> world \<Rightarrow> unit outcome \<times> world" where
  "Float64Gauge_Record None ctx v attrs w = (Done (), w)"
| "Float64Gauge_Record (Some (Float64Gauge g)) ctx v attrs w =
     instrument_Record g ctx (F64 v) (newAttributeSet attrs) w"

fun Int64ObservableGauge_Observe ::
  "Int64ObservableGauge option \<Rightarrow> nat option \<Rightarrow> int64 \<Rightarrow> Attr list \<Rightarrow> world \<Rightarrow> unit outcome \<times> world" where
  "Int64ObservableGauge_Observe None observer v attrs w = (Done (), w)"
| "Int64ObservableGauge_Observe (Some c) observer v attrs w =
     observer_Observe observer (I64 v) (newAttributeSet attrs) w"

fun Int64ObservableGauge_RegisterCallback ::
  "ext \<Rightarrow> Int64ObservableGauge option \<Rightarrow> nat \<Rightarrow> world
    \<Rightarrow> (nat option \<times> error option) outcome \<times> world" where
  "Int64ObservableGauge_RegisterCallback E None callback w = (Done (None, None), w)"
| "Int64ObservableGauge_RegisterCallback E (Some (Int64ObservableGauge inst m)) callback w =
     meter_RegisterCallback E m callback inst w"

fun Float64ObservableGauge_Observe ::
  "Float64ObservableGauge option \<Rightarrow> nat option \<Rightarrow> float64 \<Rightarrow> Attr list \<Rightarrow> world \<Rightarrow> unit outcome \<times> world" where
  "Float64ObservableGauge_Observe None observer v attrs w = (Done (), w)"
| "Float64ObservableGauge_Observe (Some c) observer v attrs w =
     observer_Observe observer (F64 v) (newAttributeSet attrs) w"

fun Float64ObservableGauge_RegisterCallback ::
  "ext \<Rightarrow> Float64ObservableGauge option \<Rightarrow> nat \<Rightarrow> world
    \<Rightarrow> (nat option \<times> error option) outcome \<times> world" where
  "Float64ObservableGauge_RegisterCallback E None callback w = (Done (None, None), w)"
| "Float64ObservableGauge_RegisterCallback E (Some (Float64ObservableGauge inst m)) callback w =
     meter_RegisterCallback E m callback inst w"

fun Int64Histogram_Record ::
  "Int64Histogram option \<Rightarrow> Context \<Rightarrow> int64 \<Rightarrow> Attr list \<Rightarrow> world \<Rightarrow> unit outcome \<times> world" where
  "Int64Histogram_Record None ctx v attrs w = (Done (), w)"
| "Int64Histogram_Record (Some (Int64Histogram h)) ctx v attrs w =
     instrument_Record h ctx (I64 v) (newAttributeSet attrs) w"

fun Float64Histogram_Record ::
  "Float64Histogram option \<Rightarrow> Context \<Rightarrow> float64 \<Rightarrow> Attr list \<Rightarrow> world \<Rightarrow> unit outcome \<times> world" where
  "Float64Histogram_Record None ctx v attrs w = (Done (), w)"
| "Float64Histogram_Record (Some (Float64Histogram h)) ctx v attrs w =
     instrument_Record h ctx (F64 v) (newAttributeSet attrs) w"

text \<open>
  \<open>meter.Int64Counter(name)\<close> and its thirteen siblings: the SDK returns the
  instrument or an error.
\<close>

fun meter_new :: "ext \<Rightarrow> Meter \<Rightarrow> instrument_kind \<Rightarrow> string \<Rightarrow> error + instrument" where
  "meter_new E (Meter scope) k name =
     (case instrument_error E k name of
        Some err \<Rightarrow> Inl err
      | None \<Rightarrow> Inr \<lparr>inst_kind = k, inst_name = name, inst_scope = scope\<rparr>)"

definition newInstrument :: "string \<Rightarrow> (string \<Rightarrow> error + 'a) \<Rightarrow> error + 'a" where
  "newInstrument name mk =
     (case mk name of
        Inl err \<Rightarrow> Inl (''failed to create metric instrument '' @ name @ '': '' @ err)
      | Inr c \<Rightarrow> Inr c)"

text \<open>
  One pass of the loop of \<open>initMetricFields\<close> over a field: go on with the field as
  it is now, or leave the function (with its error, or by a panic).
  \<open>field.Set\<close> panics on a field reflection may not set.
\<close>

datatype iteration = Continue struct_field | Leave "error option outcome"

definition switch_case ::
  "ext \<Rightarrow> Meter \<Rightarrow> struct_field \<Rightarrow> instrument_kind \<Rightarrow> (instrument \<Rightarrow> instrument_field)
    \<Rightarrow> iteration" where
  "switch_case E meter field k wrap =
     (case newInstrument (field_Name field) (meter_new E meter k) of
        Inl err \<Rightarrow> Leave (Done (Some err))
      | Inr inst \<Rightarrow>
          (if field_CanSet field then Continue (field\<lparr>field_Value := wrap inst\<rparr>)
           else Leave (Panic ''reflect: reflect.Value.Set using unaddressable or unexported value'')))"

definition initField :: "ext \<Rightarrow> Meter \<Rightarrow> struct_field \<Rightarrow> iteration" where
  "initField E meter field =
     (case field_Value field of
        FInt64Counter _ \<Rightarrow> switch_case E meter field KInt64Counter
           (\<lambda>inst. FInt64Counter (Some (Int64Counter (Some inst))))
      | FFloat64Counter _ \<Rightarrow> switch_case E meter field KFloat64Counter
           (\<lambda>inst. FFloat64Counter (Some (Float64Counter (Some inst))))
      | FInt64UpDownCounter _ \<Rightarrow> switch_case E meter field KInt64UpDownCounter
           (\<lambda>inst. FInt64UpDownCounter (Some (Int64UpDownCounter (Some inst))))
      | FFloat64UpDownCounter _ \<Rightarrow> switch_case E meter field KFloat64UpDownCounter
           (\<lambda>inst. FFloat64UpDownCounter (Some (Float64UpDownCounter (Some inst))))
      | FInt64ObservableCounter _ \<Rightarrow> switch_case E meter field KInt64ObservableCounter
           (\<lambda>inst. FInt64ObservableCounter (Some (Int64ObservableCounter (Some inst) (Some meter))))
      | FFloat64ObservableCounter _ \<Rightarrow> switch_case E meter field KFloat64ObservableCounter
           (\<lambda>inst. FFloat64ObservableCounter (Some (Float64ObservableCounter (Some inst) (Some meter))))
      | FInt64ObservableUpDownCounter _ \<Rightarrow> switch_case E meter field KInt64ObservableUpDownCounter
           (\<lambda>inst. FInt64ObservableUpDownCounter (Some (Int64ObservableUpDownCounter (Some inst) (Some meter))))
      | FFloat64ObservableUpDownCounter _ \<Rightarrow> switch_case E meter field KFloat64ObservableUpDownCounter
           (\<lambda>inst. FFloat64ObservableUpDownCounter (Some (Float64ObservableUpDownCounter (Some inst) (Some meter))))
      | FInt64Gauge _ \<Rightarrow> switch_case E meter field KInt64Gauge
           (\<lambda>inst. FInt64Gauge (Some (Int64Gauge (Some inst))))
      | FFloat64Gauge _ \<Rightarrow> switch_case E meter field KFloat64Gauge
           (\<lambda>inst. FFloat64Gauge (Some (Float64Gauge (Some inst))))
      | FInt64ObservableGauge _ \<Rightarrow> switch_case E meter field KInt64ObservableGauge
           (\<lambda>inst. FInt64ObservableGauge (Some (Int64ObservableGauge (Some inst) (Some meter))))
      | FFloat64ObservableGauge _ \<Rightarrow> switch_case E meter field KFloat64ObservableGauge
           (\<lambda>inst. FFloat64ObservableGauge (Some (Float64ObservableGauge (Some inst) (Some meter))))
      | FInt64Histogram _ \<Rightarrow> switch_case E meter field KInt64Histogram
           (\<lambda>inst. FInt64Histogram (Some (Int64Histogram (Some inst))))
      | FFloat64Histogram _ \<Rightarrow> switch_case E meter field KFloat64Histogram
           (\<lambda>inst. FFloat64Histogram (Some (Float64Histogram (Some inst))))
      | FOther \<Rightarrow> Continue field)"

fun initFields :: "ext \<Rightarrow> Meter \<Rightarrow> struct_field list \<Rightarrow> struct_field list \<times> error option outcome" where
  "initFields E meter [] = ([], Done None)"
| "initFields E meter (field # flds) =
     (case initField E meter field of
        Leave r \<Rightarrow> (field # flds, r)
      | Continue field' \<Rightarrow>
          (case initFields E meter flds of (flds', r) \<Rightarrow> (field' # flds', r)))"

text \<open>
  \<open>initMetricFields\<close>: nothing for a nil pointer; otherwise the pointer is stored in
  \<open>metricsInstance\<close> first, then the fields of the struct it points to are walked.
  \<open>NumField\<close> panics when the pointer does not point to a struct.
\<close>

definition initMetricFields :: "ext \<Rightarrow> Meter \<Rightarrow> any_pointer \<Rightarrow> world \<Rightarrow> error option outcome \<times> world" where
  "initMetricFields E meter m w =
     (case m of
        nilAny \<Rightarrow> (Done None, w)
      | anyPtr p \<Rightarrow>
          (case address p of
             None \<Rightarrow> (Done None, w)
           | Some a \<Rightarrow>
               (let w1 = w\<lparr>metricsInstance := m\<rparr> in
                case heap w1 a of
                  NonStruct \<Rightarrow>
                    (Panic ''reflect: call of reflect.Value.NumField on non-struct Value'', w1)
                | StructVal flds \<Rightarrow>
                    (case initFields E meter flds of
                       (flds', r) \<Rightarrow> (r, w1\<lparr>heap := (heap w1)(a := StructVal flds')\<rparr>)))))"

definition newGrpcMetricExporter :: "ext \<Rightarrow> Context \<Rightarrow> bool \<Rightarrow> error option" where
  "newGrpcMetricExporter E ctx insecure = exporter_error E MeterProvider False insecure"

definition newHttpMetricExporter :: "ext \<Rightarrow> Context \<Rightarrow> bool \<Rightarrow> error option" where
  "newHttpMetricExporter E ctx insecure = exporter_error E MeterProvider True insecure"

text \<open>
  \<open>InitMetrics\<close>. The exporter, the resource and the variadic SDK options only
  configure the provider; of the provider the model keeps its meter and its
  \<open>Shutdown\<close>.
\<close>

definition InitMetrics ::
  "ext \<Rightarrow> Context \<Rightarrow> string \<Rightarrow> Attr list \<Rightarrow> pointer \<Rightarrow> world
    \<Rightarrow> (error + shutdown) outcome \<times> world" where
  "InitMetrics E ctx serviceName resourceAttrs metricsStruct w =
     (let err =
        (if Getenv E ''OTEL_EXPORTER_OTLP_ENDPOINT'' \<noteq> [] then
           (let insecure = (Getenv E ''OTEL_EXPORTER_OTLP_INSECURE'' = ''true'');
                useHttp = (Getenv E ''OTEL_EXPORTER_OTLP_PROTOCOL'' = ''http'')
            in if useHttp then newHttpMetricExporter E ctx insecure
               else newGrpcMetricExporter E ctx insecure)
         else None)
      in case err of
           Some e \<Rightarrow> (Done (Inl e), w)
         | None \<Rightarrow>
             (let meter = Meter serviceName in
              case initMetricFields E meter (anyPtr metricsStruct) w of
                (Panic msg, w') \<Rightarrow> (Panic msg, w')
              | (Done (Some e), w') \<Rightarrow> (Done (Inl e), w')
              | (Done None, w') \<Rightarrow> (Done (Inr (provider_Shutdown E MeterProvider)), w')))"

text \<open>
  \<open>Metrics[T]()\<close>: nil when nothing is stored or when the stored value is not a
  \<open>*T\<close>; the stored pointer otherwise.
\<close>

definition Metrics :: "string \<Rightarrow> world \<Rightarrow> pointer" where
  "Metrics T w =
     (case metricsInstance w of
        nilAny \<Rightarrow> \<lparr>elem_type = T, address = None\<rparr>
      | anyPtr p \<Rightarrow>
          (if elem_type p = T then p else \<lparr>elem_type = T, address = None\<rparr>))"

section \<open>The tracing SDK, as the facade uses it\<close>

definition SpanFromContext :: "Context \<Rightarrow> trace_Span" where
  "SpanFromContext ctx =
     (case ctx_span ctx of None \<Rightarrow> nonRecordingSpan emptySpanContext | Some s \<Rightarrow> s)"

fun SpanContextOf :: "trace_Span \<Rightarrow> SpanContext" where
  "SpanContextOf (nonRecordingSpan sc) = sc"
| "SpanContextOf (recordingSpan i sc) = sc"

definition ContextWithSpan :: "Context \<Rightarrow> trace_Span \<Rightarrow> Context" where
  "ContextWithSpan ctx s = ctx\<lparr>ctx_span := Some s\<rparr>"

text \<open>
  Modelled from the spec: the span operations of the SDK behind \<open>trace.Span\<close>, whose
  code is not part of the repository (section 4.2 of the spec and the repository's
  tracing tests say what they do). A non-recording span ignores every call. A
  recording span that has not ended takes the change; after \<open>End\<close> it ignores it.
\<close>

definition update_span :: "nat \<Rightarrow> (span_data \<Rightarrow> span_data) \<Rightarrow> world \<Rightarrow> world" where
  "update_span i f w =
     (if i < length (spans w) \<and> \<not> sd_ended (spans w ! i)
      then w\<lparr>spans := (spans w)[i := f (spans w ! i)]\<rparr> else w)"

text \<open>Modelled from the spec: \<open>AddEvent\<close> appends a named event with its attributes.\<close>

fun traceSpan_AddEvent :: "trace_Span \<Rightarrow> string \<Rightarrow> KeyValue list \<Rightarrow> world \<Rightarrow> world" where
  "traceSpan_AddEvent (nonRecordingSpan sc) name kvs w = w"
| "traceSpan_AddEvent (recordingSpan i sc) name kvs w =
     update_span i (\<lambda>sd. sd\<lparr>sd_events := sd_events sd @ [(name, kvs)]\<rparr>) w"

text \<open>Modelled from the spec: \<open>RecordError\<close> attaches an event named \<open>exception\<close>
  carrying the error's message, and leaves the status alone; a nil error is ignored.\<close>

fun traceSpan_RecordError :: "trace_Span \<Rightarrow> error option \<Rightarrow> world \<Rightarrow> world" where
  "traceSpan_RecordError s None w = w"
| "traceSpan_RecordError s (Some err) w =
     traceSpan_AddEvent s ''exception'' [attribute_String ''exception.message'' err] w"

text \<open>Modelled from the spec: \<open>SetStatus\<close> stores the code and the description; the
  description is discarded when the code is \<open>Ok\<close>.\<close>

fun traceSpan_SetStatus :: "trace_Span \<Rightarrow> 32 word \<Rightarrow> string \<Rightarrow> world \<Rightarrow> world" where
  "traceSpan_SetStatus (nonRecordingSpan sc) code description w = w"
| "traceSpan_SetStatus (recordingSpan i sc) code description w =
     update_span i (\<lambda>sd. sd\<lparr>sd_status_code := code,
        sd_status_description := (if code = codes_Ok then [] else description)\<rparr>) w"

text \<open>Modelled from the spec: \<open>SetAttributes\<close> adds the attributes; a later value of
  a key stands for that key.\<close>

fun traceSpan_SetAttributes :: "trace_Span \<Rightarrow> KeyValue list \<Rightarrow> world \<Rightarrow> world" where
  "traceSpan_SetAttributes (nonRecordingSpan sc) kvs w = w"
| "traceSpan_SetAttributes (recordingSpan i sc) kvs w =
     update_span i (\<lambda>sd. sd\<lparr>sd_attributes := sd_attributes sd @ kvs\<rparr>) w"

text \<open>Modelled from the spec: \<open>End\<close> finalizes the span and hands it to export.\<close>

fun traceSpan_End :: "trace_Span \<Rightarrow> world \<Rightarrow> world" where
  "traceSpan_End (nonRecordingSpan sc) w = w"
| "traceSpan_End (recordingSpan i sc) w =
     (if i < length (spans w) \<and> \<not> sd_ended (spans w ! i)
      then (let sd = (spans w ! i)\<lparr>sd_ended := True\<rparr>
            in w\<lparr>spans := (spans w)[i := sd], exported := exported w @ [sd]\<rparr>)
      else w)"

text \<open>
  Modelled from the spec: \<open>tracer.Start\<close> of a tracer of the SDK, whose code is not
  part of the repository. It starts a recording span with a fresh span id, as a
  child of the span context in the context when that is valid (same trace id, the
  parent recorded), as a root with a fresh trace id otherwise. The no-op tracer, the
  initial value of the package variable, returns a non-recording span around the span
  context already in the context and touches nothing.
\<close>

fun tracer_Start ::
  "ext \<Rightarrow> Tracer \<Rightarrow> Context \<Rightarrow> string \<Rightarrow> KeyValue list \<Rightarrow> world
    \<Rightarrow> (Context \<times> trace_Span) \<times> world" where
  "tracer_Start E noopTracer ctx name kvs w =
     (let s = nonRecordingSpan (SpanContextOf (SpanFromContext ctx))
      in ((ContextWithSpan ctx s, s), w))"
| "tracer_Start E (sdkTracer scope) ctx name kvs w =
     (let psc = SpanContextOf (SpanFromContext ctx);
          ids = generate_ids E (ids_used w);
          sc = \<lparr>TraceID = (if IsValid psc then TraceID psc else fst ids),
                SpanID = snd ids, Sampled = True, Remote = False\<rparr>;
          s = recordingSpan (length (spans w)) sc;
          sd = \<lparr>sd_name = name, sd_context = sc, sd_parent = psc, sd_attributes = kvs,
                sd_events = [], sd_status_code = codes_Unset, sd_status_description = [],
                sd_ended = False\<rparr>
      in ((ContextWithSpan ctx s, s),
          w\<lparr>spans := spans w @ [sd], ids_used := Suc (ids_used w)\<rparr>))"

text \<open>
  Modelled from the spec: the W3C trace-context propagator (section 6 of the spec):
  the header \<open>traceparent\<close> is \<open>version-traceid-spanid-flags\<close>. \<open>Inject\<close> writes it
  for a valid span context; \<open>Extract\<close> reads it back into a remote span context and
  leaves the context alone when the header is missing or malformed.
\<close>

fun split_on :: "char \<Rightarrow> string \<Rightarrow> string list" where
  "split_on c [] = [[]]"
| "split_on c (x # xs) =
     (if x = c then [] # split_on c xs
      else (case split_on c xs of [] \<Rightarrow> [[x]] | p # ps \<Rightarrow> (x # p) # ps))"

definition traceparent :: "SpanContext \<Rightarrow> string" where
  "traceparent sc =
     ''00-'' @ TraceID sc @ ''-'' @ SpanID sc @ ''-'' @ (if Sampled sc then ''01'' else ''00'')"

definition parse_traceparent :: "string \<Rightarrow> SpanContext option" where
  "parse_traceparent h =
     (case split_on CHR ''-'' h of
        [version, tid, sid, flags] \<Rightarrow>
          (if version = ''00'' \<and> valid_id 32 tid \<and> valid_id 16 sid
              \<and> (flags = ''00'' \<or> flags = ''01'')
           then Some \<lparr>TraceID = tid, SpanID = sid, Sampled = (flags = ''01''), Remote = True\<rparr>
           else None)
      | _ \<Rightarrow> None)"

definition propagator_Inject :: "Context \<Rightarrow> (string \<rightharpoonup> string) \<Rightarrow> (string \<rightharpoonup> string)" where
  "propagator_Inject ctx carrier =
     (let sc = SpanContextOf (SpanFromContext ctx)
      in if IsValid sc then carrier(''traceparent'' \<mapsto> traceparent sc) else carrier)"

definition propagator_Extract :: "Context \<Rightarrow> (string \<rightharpoonup> string) \<Rightarrow> Context" where
  "propagator_Extract ctx carrier =
     (case carrier ''traceparent'' of
        None \<Rightarrow> ctx
      | Some h \<Rightarrow>
          (case parse_traceparent h of
             None \<Rightarrow> ctx
           | Some sc \<Rightarrow> ContextWithSpan ctx (nonRecordingSpan sc)))"

section \<open>Package tracing: functions (src/unnamed/part_000)\<close>

text \<open>
  The methods of \<open>Span\<close>. Each calls the method of the same name on the wrapped
  \<open>trace.Span\<close>; on a \<open>Span\<close> whose interface field is nil the call panics.
\<close>

fun Span_AddEvent :: "Span \<Rightarrow> string \<Rightarrow> Attr list \<Rightarrow> world \<Rightarrow> unit outcome \<times> world" where
  "Span_AddEvent (Span None) name attrs w = (Panic nil_dereference, w)"
| "Span_AddEvent (Span (Some ts)) name attrs w =
     (Done (), traceSpan_AddEvent ts name (map KeyValue attrs) w)"

fun Span_RecordError :: "Span \<Rightarrow> error option \<Rightarrow> world \<Rightarrow> unit outcome \<times> world" where
  "Span_RecordError (Span None) err w = (Panic nil_dereference, w)"
| "Span_RecordError (Span (Some ts)) err w = (Done (), traceSpan_RecordError ts err w)"

fun Span_RecordErrorAndSetStatus :: "Span \<Rightarrow> error option \<Rightarrow> world \<Rightarrow> unit outcome \<times> world" where
  "Span_RecordErrorAndSetStatus s err w =
     (case Span_RecordError s err w of
        (Panic msg, w1) \<Rightarrow> (Panic msg, w1)
      | (Done u, w1) \<Rightarrow>
          (case err of
             None \<Rightarrow> (Panic nil_dereference, w1)
           | Some e \<Rightarrow>
               (case traceSpan s of
                  None \<Rightarrow> (Panic nil_dereference, w1)
                | Some ts \<Rightarrow> (Done (), traceSpan_SetStatus ts codes_Error e w1))))"

fun Span_SetStatus :: "Span \<Rightarrow> StatusCode \<Rightarrow> string \<Rightarrow> world \<Rightarrow> unit outcome \<times> world" where
  "Span_SetStatus (Span None) code description w = (Panic nil_dereference, w)"
| "Span_SetStatus (Span (Some ts)) code description w =
     (Done (), traceSpan_SetStatus ts code description w)"

fun Span_SetOk :: "Span \<Rightarrow> world \<Rightarrow> unit outcome \<times> world" where
  "Span_SetOk (Span None) w = (Panic nil_dereference, w)"
| "Span_SetOk (Span (Some ts)) w = (Done (), traceSpan_SetStatus ts codes_Ok [] w)"

fun Span_SetAttributes :: "Span \<Rightarrow> Attr list \<Rightarrow> world \<Rightarrow> unit outcome \<times> world" where
  "Span_SetAttributes (Span None) attrs w = (Panic nil_dereference, w)"
| "Span_SetAttributes (Span (Some ts)) attrs w =
     (Done (), traceSpan_SetAttributes ts (map KeyValue attrs) w)"

fun Span_End :: "Span \<Rightarrow> world \<Rightarrow> unit outcome \<times> world" where
  "Span_End (Span None) w = (Panic nil_dereference, w)"
| "Span_End (Span (Some ts)) w = (Done (), traceSpan_End ts w)"

definition newGrpcTraceExporter :: "ext \<Rightarrow> Context \<Rightarrow> bool \<Rightarrow> error option" where
  "newGrpcTraceExporter E ctx insecure = exporter_error E TracerProvider False insecure"

definition newHttpTraceExporter :: "ext \<Rightarrow> Context \<Rightarrow> bool \<Rightarrow> error option" where
  "newHttpTraceExporter E ctx insecure = exporter_error E TracerProvider True insecure"

text \<open>
  \<open>InitTracing\<close>: on success the package variable \<open>tracer\<close> becomes a tracer of the
  new provider, and the provider's \<open>Shutdown\<close> is returned.
\<close>

definition InitTracing ::
  "ext \<Rightarrow> Context \<Rightarrow> string \<Rightarrow> Attr list \<Rightarrow> world \<Rightarrow> (error + shutdown) \<times> world" where
  "InitTracing E ctx serviceName resourceAttrs w =
     (let err =
        (if Getenv E ''OTEL_EXPORTER_OTLP_ENDPOINT'' \<noteq> [] then
           (let insecure = (Getenv E ''OTEL_EXPORTER_OTLP_INSECURE'' = ''true'');
                useHttp = (Getenv E ''OTEL_EXPORTER_OTLP_PROTOCOL'' = ''http'')
            in if useHttp then newHttpTraceExporter E ctx insecure
               else newGrpcTraceExporter E ctx insecure)
         else None)
      in case err of
           Some e \<Rightarrow> (Inl e, w)
         | None \<Rightarrow> (Inr (provider_Shutdown E TracerProvider), w\<lparr>tracer := sdkTracer serviceName\<rparr>))"

definition TraceHeaders :: "Context \<Rightarrow> (string \<rightharpoonup> string)" where
  "TraceHeaders ctx = propagator_Inject ctx Map.empty"

definition newSpan ::
  "ext \<Rightarrow> Context \<Rightarrow> string \<Rightarrow> Attr list \<Rightarrow> world \<Rightarrow> (Context \<times> Span) \<times> world" where
  "newSpan E ctx name attrs w =
     (case tracer_Start E (tracer w) ctx name (map KeyValue attrs) w of
        ((ctx', ts), w') \<Rightarrow> ((ctx', Span (Some ts)), w'))"

definition NewSpan ::
  "ext \<Rightarrow> Context \<Rightarrow> string \<Rightarrow> Attr list \<Rightarrow> world \<Rightarrow> (Context \<times> Span) \<times> world" where
  "NewSpan E ctx name attrs w = newSpan E ctx name attrs w"

definition NewChildSpan ::
  "ext \<Rightarrow> Context \<Rightarrow> (string \<rightharpoonup> string) \<Rightarrow> string \<Rightarrow> Attr list \<Rightarrow> world
    \<Rightarrow> (Context \<times> Span) \<times> world" where
  "NewChildSpan E ctx carrier name attrs w =
     newSpan E (propagator_Extract ctx carrier) name attrs w"

section \<open>The level parser of slog\<close>

text \<open>
  \<open>slog.Level.UnmarshalText\<close>, which \<open>NewJSONHandler\<close> calls. It belongs to Go's
  standard library, not to the repository; it is written here as the library
  documents and implements it, on ASCII text: the text is cut at its first \<open>+\<close> or
  \<open>-\<close>; what follows, sign included, is read by \<open>strconv.Atoi\<close> as an offset; what
  precedes is upper-cased and must be one of the four level names; the result is the
  level of the name plus the offset, in Go's 64-bit \<open>int\<close>.
\<close>

definition quote :: "string \<Rightarrow> string" where
  "quote s = CHR 0x22 # s @ [CHR 0x22]"

definition ToUpper :: "string \<Rightarrow> string" where
  "ToUpper s =
     map (\<lambda>c. case map_of (zip ''abcdefghijklmnopqrstuvwxyz'' ''ABCDEFGHIJKLMNOPQRSTUVWXYZ'') c of
                 Some u \<Rightarrow> u
               | None \<Rightarrow> c) s"

definition level_names :: "(string \<times> slog_Level) list" where
  "level_names =
     [(''DEBUG'', LevelDebug), (''INFO'', LevelInfo), (''WARN'', LevelWarn), (''ERROR'', LevelError)]"

definition digit_value :: "char \<Rightarrow> int option" where
  "digit_value c = map_of (zip ''0123456789'' [0, 1, 2, 3, 4, 5, 6, 7, 8, 9]) c"

fun decimal :: "int \<Rightarrow> string \<Rightarrow> int option" where
  "decimal n [] = Some n"
| "decimal n (c # cs) =
     (case digit_value c of None \<Rightarrow> None | Some d \<Rightarrow> decimal (10 * n + d) cs)"

definition strconv_Atoi :: "string \<Rightarrow> error + int" where
  "strconv_Atoi s =
     (let digits = (if take 1 s = ''+'' \<or> take 1 s = ''-'' then drop 1 s else s);
          neg = (take 1 s = ''-'')
      in case (if digits = [] then None else decimal 0 digits) of
           None \<Rightarrow> Inl (''strconv.Atoi: parsing '' @ quote s @ '': invalid syntax'')
         | Some n \<Rightarrow>
             (let v = (if neg then - n else n)
              in if - (2 ^ 63) \<le> v \<and> v < 2 ^ 63 then Inr v
                 else Inl (''strconv.Atoi: parsing '' @ quote s @ '': value out of range'')))"

definition is_sign :: "char \<Rightarrow> bool" where
  "is_sign c = (c = CHR ''+'' \<or> c = CHR ''-'')"

definition Level_parse :: "string \<Rightarrow> error + slog_Level" where
  "Level_parse s =
     (let wrap = (\<lambda>err. ''slog: level string '' @ quote s @ '': '' @ err);
          name = takeWhile (\<lambda>c. \<not> is_sign c) s;
          rest = dropWhile (\<lambda>c. \<not> is_sign c) s
      in case (if rest = [] then Inr 0 else strconv_Atoi rest) of
           Inl err \<Rightarrow> Inl (wrap err)
         | Inr offset \<Rightarrow>
             (case map_of level_names (ToUpper name) of
                None \<Rightarrow> Inl (wrap ''unknown name'')
              | Some l \<Rightarrow> Inr (sint (word_of_int (l + offset) :: 64 word))))"

definition Level_UnmarshalText :: "string \<Rightarrow> error + slog_Level" where
  "Level_UnmarshalText data = Level_parse data"

section \<open>The slog logger over a fan-out of handlers\<close>

text \<open>
  How \<open>slog\<close> and the fan-out handler pass a record on, as the facade relies on it:
  a handler writes the record, with its own attributes first, to its destination;
  the fan-out hands the record to every handler enabled for its level, in order; the
  logger builds no record at all when no handler is enabled for the level.
\<close>

definition handler_Handle :: "slog_Handler \<Rightarrow> slog_Record \<Rightarrow> world \<Rightarrow> world" where
  "handler_Handle h r w =
     w\<lparr>written := (written w)(h_Writer h :=
          written w (h_Writer h) @ [r\<lparr>rec_Attrs := h_Attrs h @ rec_Attrs r\<rparr>])\<rparr>"

fun fanout_Handle :: "slog_Handler list \<Rightarrow> slog_Record \<Rightarrow> world \<Rightarrow> world" where
  "fanout_Handle [] r w = w"
| "fanout_Handle (h # hs) r w =
     fanout_Handle hs r (if h_Enabled h (rec_Level r) then handler_Handle h r w else w)"

definition logger_log ::
  "slog_Handler list \<Rightarrow> slog_Level \<Rightarrow> Context \<Rightarrow> string \<Rightarrow> slog_Attr list \<Rightarrow> world \<Rightarrow> world" where
  "logger_log hs level ctx msg args w =
     (if list_ex (\<lambda>h. h_Enabled h level) hs
      then fanout_Handle hs \<lparr>rec_Level = level, rec_Message = msg, rec_Attrs = args\<rparr> w
      else w)"

section \<open>Package log: functions (src/unnamed/part_002)\<close>

definition toSlogAttr :: "Attr \<Rightarrow> slog_Attr" where
  "toSlogAttr attr =
     (let key = Key (KeyValue attr); v = AsInterface (Value (KeyValue attr)) in (key, v))"

text \<open>
  \<open>NewJSONHandler\<close>: the level text goes to the level parser of \<open>slog\<close> as it is; the
  parser's error is returned; otherwise the handler writes to \<open>w\<close>, is enabled from
  the parsed level upwards, and carries the resource attributes.
\<close>

definition NewJSONHandler :: "ext \<Rightarrow> nat \<Rightarrow> Attr list \<Rightarrow> string \<Rightarrow> error + slog_Handler" where
  "NewJSONHandler E w resourceAttrs logLevel =
     (let slogResourceAttrs =
            map (\<lambda>attr. (Key (KeyValue attr), AsInterface (Value (KeyValue attr)))) resourceAttrs
      in case UnmarshalText E logLevel of
           Inl err \<Rightarrow> Inl err
         | Inr slogLevel \<Rightarrow>
             Inr \<lparr>h_Enabled = (\<lambda>l. slogLevel \<le> l), h_Attrs = slogResourceAttrs,
                  h_Writer = Writer w\<rparr>)"

definition newHttpLogger :: "ext \<Rightarrow> Context \<Rightarrow> bool \<Rightarrow> Attr list \<Rightarrow> error option" where
  "newHttpLogger E ctx insecure resourceAttrs = exporter_error E LoggerProvider True insecure"

definition newGrpcLogger :: "ext \<Rightarrow> Context \<Rightarrow> bool \<Rightarrow> Attr list \<Rightarrow> error option" where
  "newGrpcLogger E ctx insecure resourceAttrs = exporter_error E LoggerProvider False insecure"

text \<open>\<open>grpcLogHandler\<close>: the handler that bridges to the SDK's log exporter, or the
  error of building the exporter.\<close>

definition grpcLogHandler :: "ext \<Rightarrow> Context \<Rightarrow> Attr list \<Rightarrow> error + slog_Handler" where
  "grpcLogHandler E ctx resourceAttrs =
     (let insecure = (Getenv E ''OTEL_EXPORTER_OTLP_INSECURE'' = ''true'');
          useHttp = (Getenv E ''OTEL_EXPORTER_OTLP_PROTOCOL'' = ''http'');
          err = (if useHttp then newHttpLogger E ctx insecure resourceAttrs
                 else newGrpcLogger E ctx insecure resourceAttrs)
      in case err of
           Some e \<Rightarrow> Inl e
         | None \<Rightarrow> Inr \<lparr>h_Enabled = (\<lambda>l. True), h_Attrs = [], h_Writer = OtelLogs\<rparr>)"

text \<open>The closure \<open>writeLog\<close> of \<open>InitLogger\<close>.\<close>

definition writeLog ::
  "Context \<Rightarrow> (Context \<Rightarrow> string \<Rightarrow> slog_Attr list \<Rightarrow> world \<Rightarrow> world) \<Rightarrow> string \<Rightarrow> Attr list
    \<Rightarrow> world \<Rightarrow> world" where
  "writeLog ctx logF message logAttributes w =
     (let slogAttrs = map toSlogAttr logAttributes;
          spanContext = SpanContextOf (SpanFromContext ctx);
          slogAttrs = (if IsValid spanContext
                       then slogAttrs @ [(''trace_id'', AnyString (TraceID spanContext))]
                       else slogAttrs)
      in logF ctx message slogAttrs w)"

text \<open>
  \<open>InitLogger\<close>: the handlers given, and the bridge to the SDK when the endpoint is
  set, behind one logger; the four package variables are set to closures over it.
\<close>

definition InitLogger ::
  "ext \<Rightarrow> Context \<Rightarrow> Attr list \<Rightarrow> slog_Handler list \<Rightarrow> world \<Rightarrow> (error + shutdown) \<times> world" where
  "InitLogger E ctx resourceAttrs handler w =
     (let slogHandlers = [] @ handler;
          remote = (if Getenv E ''OTEL_EXPORTER_OTLP_ENDPOINT'' \<noteq> []
                    then Some (grpcLogHandler E ctx resourceAttrs) else None)
      in case remote of
           Some (Inl err) \<Rightarrow> (Inl err, w)
         | _ \<Rightarrow>
             (let slogHandlers =
                    (case remote of Some (Inr otelHandler) \<Rightarrow> slogHandlers @ [otelHandler]
                                  | _ \<Rightarrow> slogHandlers);
                  provider = (case remote of Some (Inr otelHandler) \<Rightarrow> Some LoggerProvider
                                           | _ \<Rightarrow> None);
                  shutdown = (\<lambda>ctx w. case provider of
                                         Some p \<Rightarrow> provider_Shutdown E p ctx w
                                       | None \<Rightarrow> (None, w))
              in (Inr shutdown,
                  w\<lparr>log_Debug := logWith slogHandlers, log_Info := logWith slogHandlers,
                    log_Warn := logWith slogHandlers, log_Error := logWith slogHandlers\<rparr>)))"

text \<open>
  A call through one of the package variables \<open>Debug\<close>, \<open>Info\<close>, \<open>Warn\<close>: nothing
  while the variable holds the no-op function, \<open>writeLog\<close> at the variable's level
  once \<open>InitLogger\<close> has set it.
\<close>

fun call_logWithContext ::
  "slog_Level \<Rightarrow> log_func \<Rightarrow> Context \<Rightarrow> string \<Rightarrow> Attr list \<Rightarrow> world \<Rightarrow> world" where
  "call_logWithContext level noopLogWithContext ctx message attributes w = w"
| "call_logWithContext level (logWith hs) ctx message attributes w =
     writeLog ctx (logger_log hs level) message attributes w"

definition Debug :: "Context \<Rightarrow> string \<Rightarrow> Attr list \<Rightarrow> world \<Rightarrow> world" where
  "Debug ctx message attributes w =
     call_logWithContext LevelDebug (log_Debug w) ctx message attributes w"

definition Info :: "Context \<Rightarrow> string \<Rightarrow> Attr list \<Rightarrow> world \<Rightarrow> world" where
  "Info ctx message attributes w =
     call_logWithContext LevelInfo (log_Info w) ctx message attributes w"

definition Warn :: "Context \<Rightarrow> string \<Rightarrow> Attr list \<Rightarrow> world \<Rightarrow> world" where
  "Warn ctx message attributes w =
     call_logWithContext LevelWarn (log_Warn w) ctx message attributes w"


section \<open>Package otel: the unified initializer (src/otel/otel.go)\<close>

text \<open>The shutdown function \<open>Init\<close> returns.\<close>

definition Init_shutdown :: "shutdown \<Rightarrow> shutdown \<Rightarrow> shutdown \<Rightarrow> shutdown" where
  "Init_shutdown shutdownLogger shutdownMetrics shutdownTracing ctx w =
     (case shutdownLogger ctx w of
        (firstErr, w1) \<Rightarrow>
          (case shutdownMetrics ctx w1 of
             (err, w2) \<Rightarrow>
               (let firstErr = (if err \<noteq> None \<and> firstErr = None then err else firstErr)
                in case shutdownTracing ctx w2 of
                     (err, w3) \<Rightarrow>
                       (let firstErr = (if err \<noteq> None \<and> firstErr = None then err else firstErr)
                        in (firstErr, w3)))))"

text \<open>
  \<open>Init\<close>: tracing, then metrics, then logging. A panic of \<open>InitMetrics\<close> passes
  through \<open>Init\<close> as it is.
\<close>

definition Init ::
  "ext \<Rightarrow> Context \<Rightarrow> string \<Rightarrow> Attr list \<Rightarrow> pointer \<Rightarrow> slog_Handler option \<Rightarrow> world
    \<Rightarrow> (error + shutdown) outcome \<times> world" where
  "Init E ctx serviceName resourceAttrs metricsStruct logHandler w =
     (case InitTracing E ctx serviceName resourceAttrs w of
        (Inl err, w1) \<Rightarrow> (Done (Inl err), w1)
      | (Inr shutdownTracing, w1) \<Rightarrow>
          (case InitMetrics E ctx serviceName resourceAttrs metricsStruct w1 of
             (Panic msg, w2) \<Rightarrow> (Panic msg, w2)
           | (Done (Inl err), w2) \<Rightarrow>
               (case shutdownTracing ctx w2 of (_, w3) \<Rightarrow> (Done (Inl err), w3))
           | (Done (Inr shutdownMetrics), w2) \<Rightarrow>
               (case (case logHandler of
                        Some h \<Rightarrow> InitLogger E ctx resourceAttrs [h] w2
                      | None \<Rightarrow> InitLogger E ctx resourceAttrs [] w2) of
                  (Inl err, w3) \<Rightarrow>
                    (case shutdownMetrics ctx w3 of
                       (_, w4) \<Rightarrow>
                         (case shutdownTracing ctx w4 of (_, w5) \<Rightarrow> (Done (Inl err), w5)))
                | (Inr shutdownLogger, w3) \<Rightarrow>
                    (Done (Inr (Init_shutdown shutdownLogger shutdownMetrics shutdownTracing)),
                     w3))))"

section \<open>Example inputs\<close>

text \<open>
  An outside world for the examples: \<open>ext_example endpoint failing\<close> has the
  endpoint variable set when \<open>endpoint\<close> holds, and the exporter of provider \<open>p\<close>
  fails to build when \<open>failing = Some p\<close>. Its level parser is the one of \<open>slog\<close>. Every provider reports an error from \<open>Shutdown\<close>. An instrument
  name that starts with an underscore is refused, as the SDK refuses a name that
  does not start with a letter.
\<close>

definition ext_example :: "bool \<Rightarrow> provider option \<Rightarrow> ext" where
  "ext_example endpoint failing =
     \<lparr>Getenv = (\<lambda>name. if name = ''OTEL_EXPORTER_OTLP_ENDPOINT'' \<and> endpoint
                       then ''http://localhost:4317'' else []),
      exporter_error = (\<lambda>p useHttp insecure.
         if failing = Some p then Some ''exporter: connection refused'' else None),
      instrument_error = (\<lambda>k name.
         if take 1 name = ''_'' then Some ''invalid instrument name: must start with a letter''
         else None),
      register_error = (\<lambda>inst. None),
      shutdown_error = (\<lambda>p. case p of TracerProvider \<Rightarrow> Some ''tracer provider: flush failed''
                                    | MeterProvider \<Rightarrow> Some ''meter provider: flush failed''
                                    | LoggerProvider \<Rightarrow> Some ''logger provider: flush failed''),
      UnmarshalText = Level_UnmarshalText,
      generate_ids = (\<lambda>n. (''0af7651916cd43dd8448eb211c80319c'',
         if n = 0 then ''b7ad6b7169203331'' else ''00f067aa0ba902b7'')),
      debug_Stack = ''goroutine 1 [running]:''\<rparr>"

text \<open>
  A metrics struct at address 0 of the heap, of a type named \<open>AppMetrics\<close>:
  \<open>struct { Requests *Int64Counter; _Latency *Int64Histogram; Label string }\<close>,
  all fields at their zero values; and one whose every instrument can be created,
  \<open>struct { Requests *Int64Counter; Label string }\<close>, at address 1.
\<close>

definition world_example :: world where
  "world_example = world0\<lparr>heap := (\<lambda>a.
      if a = 0 then StructVal
        [\<lparr>field_Name = ''Requests'', field_CanSet = True, field_Value = FInt64Counter None\<rparr>,
         \<lparr>field_Name = ''_Latency'', field_CanSet = False, field_Value = FInt64Histogram None\<rparr>,
         \<lparr>field_Name = ''Label'', field_CanSet = True, field_Value = FOther\<rparr>]
      else if a = 1 then StructVal
        [\<lparr>field_Name = ''Requests'', field_CanSet = True, field_Value = FInt64Counter None\<rparr>,
         \<lparr>field_Name = ''Label'', field_CanSet = True, field_Value = FOther\<rparr>]
      else NonStruct)\<rparr>"

definition app_metrics_bad :: pointer where
  "app_metrics_bad = \<lparr>elem_type = ''AppMetrics'', address = Some 0\<rparr>"

definition app_metrics :: pointer where
  "app_metrics = \<lparr>elem_type = ''AppMetrics'', address = Some 1\<rparr>"

text \<open>
  A JSON handler on writer 0 at level \<open>WARN\<close> with one resource attribute, as
  \<open>NewJSONHandler\<close> builds it, and the state after \<open>InitLogger\<close> with that handler
  and no endpoint.
\<close>

definition handler_example :: slog_Handler where
  "handler_example =
     \<lparr>h_Enabled = (\<lambda>l. LevelWarn \<le> l),
      h_Attrs = [(''service.name'', AnyString ''svc'')], h_Writer = Writer 0\<rparr>"


text \<open>
  The state after \<open>InitTracing\<close> with no endpoint, the span context of the first span
  started in it, and the state after that span has been started.
\<close>

definition world_tracing :: world where
  "world_tracing = snd (InitTracing (ext_example False None) background ''svc'' [] world0)"

definition parent_context :: SpanContext where
  "parent_context =
     \<lparr>TraceID = ''0af7651916cd43dd8448eb211c80319c'', SpanID = ''b7ad6b7169203331'',
      Sampled = True, Remote = False\<rparr>"

definition world_parent :: world where
  "world_parent =
     snd (NewSpan (ext_example False None) background ''parent-span'' [] world_tracing)"

section \<open>Properties of the attribute adapter\<close>

lemmas attribute_ctor_defs =
  attribute_Bool_def attribute_BoolSlice_def attribute_Float64_def
  attribute_Float64Slice_def attribute_Int64_def attribute_Int64Slice_def
  attribute_Int_def attribute_IntSlice_def attribute_String_def
  attribute_StringSlice_def

lemma New_Done:
  "(\<forall>msg f. v \<noteq> AnyOther (Some (Panic msg)) f) \<Longrightarrow>
     \<exists>a. New key v = Done a \<and> Key (KeyValue a) = key \<and> Value (KeyValue a) \<noteq> INVALID"
  by (cases "(key, v)" rule: New.cases) (simp_all add: new_def attribute_ctor_defs)

lemma int64_of_int_exact: "sint (scast (v :: go_int) :: int64) = sint v"
  by simp

lemma int64_of_ints_exact: "map sint (map scast (vs :: go_int list) :: int64 list) = map sint vs"
  by (induction vs) simp_all

text \<open>
  Against claim C6 as stated: a typed nil pointer whose \<open>String()\<close> method reads its
  receiver is a \<open>fmt.Stringer\<close>; \<open>New\<close> calls the method, the call panics, and \<open>New\<close>
  returns no attribute.
\<close>

theorem New_nil_Stringer_counterexample:
  "New ''k'' (AnyOther (Some (Panic nil_dereference)) ''<nil>'') = Panic nil_dereference
   \<and> \<not> (\<exists>a. New ''k'' (AnyOther (Some (Panic nil_dereference)) ''<nil>'') = Done a)"
  by simp

text \<open>
  Claim C6, amended. \<open>New\<close> returns an attribute, with the key passed and a value
  that is never of the invalid type, for every key and every value except a
  \<open>fmt.Stringer\<close> whose \<open>String()\<close> panics; there the panic is \<open>New\<close>'s. For the ten
  supported kinds the attribute holds the input itself (an \<open>int\<close> or \<open>[]int\<close> is
  held as the \<open>int64\<close> of the same numeric value); for any other value it holds a
  string: the result of \<open>String()\<close> when the value is a \<open>fmt.Stringer\<close>, the \<open>%v\<close>
  formatting otherwise.
\<close>

theorem New_dispatch:
  "(\<exists>a. New key (AnyBool b) = Done a \<and> AsInterface (Value (KeyValue a)) = AnyBool b)
   \<and> (\<exists>a. New key (AnyBoolSlice bs) = Done a
          \<and> AsInterface (Value (KeyValue a)) = AnyBoolSlice bs)
   \<and> (\<exists>a. New key (AnyFloat64 x) = Done a \<and> AsInterface (Value (KeyValue a)) = AnyFloat64 x)
   \<and> (\<exists>a. New key (AnyFloat64Slice xs) = Done a
          \<and> AsInterface (Value (KeyValue a)) = AnyFloat64Slice xs)
   \<and> (\<exists>a j. New key (AnyInt i) = Done a \<and> Value (KeyValue a) = INT64 j \<and> sint j = sint i)
   \<and> (\<exists>a js. New key (AnyIntSlice is) = Done a \<and> Value (KeyValue a) = INT64SLICE js
          \<and> map sint js = map sint is)
   \<and> (\<exists>a. New key (AnyInt64 n) = Done a \<and> AsInterface (Value (KeyValue a)) = AnyInt64 n)
   \<and> (\<exists>a. New key (AnyInt64Slice ns) = Done a
          \<and> AsInterface (Value (KeyValue a)) = AnyInt64Slice ns)
   \<and> (\<exists>a. New key (AnyString s) = Done a \<and> AsInterface (Value (KeyValue a)) = AnyString s)
   \<and> (\<exists>a. New key (AnyStringSlice ss) = Done a
          \<and> AsInterface (Value (KeyValue a)) = AnyStringSlice ss)
   \<and> (\<exists>a. New key (AnyOther (Some (Done str)) f) = Done a \<and> Value (KeyValue a) = STRING str)
   \<and> (\<exists>a. New key (AnyOther None f) = Done a \<and> Value (KeyValue a) = STRING f)
   \<and> New key (AnyOther (Some (Panic msg)) f) = Panic msg
   \<and> (\<forall>v. (\<forall>msg f. v \<noteq> AnyOther (Some (Panic msg)) f) \<longrightarrow>
          (\<exists>a. New key v = Done a \<and> Key (KeyValue a) = key \<and> Value (KeyValue a) \<noteq> INVALID))"
proof -
  have "map sint (map scast is :: int64 list) = map sint is"
    by (rule int64_of_ints_exact)
  then have ints: "\<exists>a js. New key (AnyIntSlice is) = Done a \<and> Value (KeyValue a) = INT64SLICE js
      \<and> map sint js = map sint is"
    unfolding New.simps new_def attribute_IntSlice_def attribute_Int64Slice_def
    by (intro exI [of _ "Attr \<lparr>Key = key, Value = INT64SLICE (map scast is)\<rparr>"]
        exI [of _ "map scast is"]) simp
  have rest: "\<forall>v. (\<forall>msg f. v \<noteq> AnyOther (Some (Panic msg)) f) \<longrightarrow>
      (\<exists>a. New key v = Done a \<and> Key (KeyValue a) = key \<and> Value (KeyValue a) \<noteq> INVALID)"
    using New_Done by blast
  show ?thesis
    using ints rest by (simp add: new_def attribute_ctor_defs)
qed

theorem New_dispatch_witness:
  "(\<exists>a. New ''timeout'' (AnyOther (Some (Done ''1.5s'')) ''1.5s'') = Done a
       \<and> Key (KeyValue a) = ''timeout'' \<and> Value (KeyValue a) = STRING ''1.5s'')
   \<and> (\<exists>a. New ''retries'' (AnyInt 3) = Done a
       \<and> Key (KeyValue a) = ''retries'' \<and> Value (KeyValue a) \<noteq> INVALID)"
proof -
  have s: "\<forall>msg f. AnyOther (Some (Done ''1.5s'')) ''1.5s'' \<noteq> AnyOther (Some (Panic msg)) f"
    by simp
  have i: "\<forall>msg f. AnyInt 3 \<noteq> AnyOther (Some (Panic msg)) f"
    by simp
  from New_dispatch [of "''timeout''" _ _ _ _ _ _ _ _ _ _ "''1.5s''" "''1.5s''"] s
  have 1: "\<exists>a. New ''timeout'' (AnyOther (Some (Done ''1.5s'')) ''1.5s'') = Done a
       \<and> Key (KeyValue a) = ''timeout'' \<and> Value (KeyValue a) = STRING ''1.5s''"
    by (metis outcome.inject)
  from New_dispatch [of "''retries''"] i
  have 2: "\<exists>a. New ''retries'' (AnyInt 3) = Done a
       \<and> Key (KeyValue a) = ''retries'' \<and> Value (KeyValue a) \<noteq> INVALID"
    by blast
  from 1 2 show ?thesis by blast
qed

section \<open>Properties of the metrics registry\<close>

lemma initMetricFields_stores:
  "address p = Some a \<Longrightarrow>
     metricsInstance (snd (initMetricFields E meter (anyPtr p) w)) = anyPtr p"
  by (simp add: initMetricFields_def Let_def split: pointee.splits prod.splits)

lemma initMetricFields_nil_pointer:
  "address p = None \<Longrightarrow> initMetricFields E meter (anyPtr p) w = (Done None, w)"
  by (simp add: initMetricFields_def)

lemma InitMetrics_stores:
  assumes "InitMetrics E ctx serviceName resourceAttrs p w = (Done (Inr sh), w')"
    and "address p = Some a"
  shows "metricsInstance w' = anyPtr p"
proof -
  from assms(1) have "w' = snd (initMetricFields E (Meter serviceName) (anyPtr p) w)"
    by (auto simp: InitMetrics_def Let_def
        split: option.splits prod.splits outcome.splits if_splits)
  with assms(2) show ?thesis by (simp add: initMetricFields_stores)
qed

lemmas metrics_example_defs =
  InitMetrics_def ext_example_def initMetricFields_def app_metrics_bad_def
  app_metrics_def world_example_def world0_def initField_def switch_case_def
  newInstrument_def Let_def

lemma InitMetrics_example_fails:
  "fst (InitMetrics (ext_example False None) background ''svc'' [] app_metrics_bad world_example)
     = Done (Inl (''failed to create metric instrument _Latency: ''
                  @ ''invalid instrument name: must start with a letter''))"
  by (simp add: metrics_example_defs)

lemma InitMetrics_example_succeeds:
  "InitMetrics (ext_example False None) background ''svc'' [] app_metrics world_example
     = (Done (Inr (provider_Shutdown (ext_example False None) MeterProvider)),
        snd (InitMetrics (ext_example False None) background ''svc'' [] app_metrics world_example))"
  by (simp add: metrics_example_defs)

text \<open>
  Claim C1, evaluated on the code. \<open>InitMetrics\<close> on the struct
  \<open>{ Requests *Int64Counter; _Latency *Int64Histogram; Label string }\<close> returns the
  error of creating \<open>_Latency\<close>; afterwards \<open>Metrics[AppMetrics]()\<close> does not return
  nil but the pointer passed in, and the struct it points to has \<open>Requests\<close>
  populated and \<open>_Latency\<close> still nil: the instance is stored before the fields are
  walked and stays stored when the walk fails.
\<close>

theorem InitMetrics_failure_keeps_instance:
  "fst (InitMetrics (ext_example False None) background ''svc'' [] app_metrics_bad world_example)
     = Done (Inl (''failed to create metric instrument _Latency: ''
                  @ ''invalid instrument name: must start with a letter''))
   \<and> Metrics ''AppMetrics''
        (snd (InitMetrics (ext_example False None) background ''svc'' [] app_metrics_bad world_example))
       = \<lparr>elem_type = ''AppMetrics'', address = Some 0\<rparr>
   \<and> Metrics ''AppMetrics'' world_example = \<lparr>elem_type = ''AppMetrics'', address = None\<rparr>
   \<and> heap (snd (InitMetrics (ext_example False None) background ''svc'' [] app_metrics_bad
        world_example)) 0
       = StructVal
          [\<lparr>field_Name = ''Requests'', field_CanSet = True,
              field_Value = FInt64Counter (Some (Int64Counter (Some
                 \<lparr>inst_kind = KInt64Counter, inst_name = ''Requests'', inst_scope = ''svc''\<rparr>)))\<rparr>,
           \<lparr>field_Name = ''_Latency'', field_CanSet = False, field_Value = FInt64Histogram None\<rparr>,
           \<lparr>field_Name = ''Label'', field_CanSet = True, field_Value = FOther\<rparr>]"
  by (simp add: metrics_example_defs Metrics_def)

text \<open>
  Claim C4. \<open>Metrics[T]()\<close> is nil while \<open>metricsInstance\<close> holds nothing, as it
  does when the process starts; after \<open>InitMetrics\<close> has succeeded on a non-nil
  \<open>*T\<close> it is that very pointer; and for a type \<open>U\<close> other than the type of the
  stored pointer it is nil.
\<close>

theorem Metrics_retrieval:
  "metricsInstance world0 = nilAny
   \<and> (metricsInstance w = nilAny \<longrightarrow> address (Metrics T w) = None)
   \<and> (InitMetrics E ctx serviceName resourceAttrs \<lparr>elem_type = T, address = Some a\<rparr> w
          = (Done (Inr sh), w')
        \<longrightarrow> Metrics T w' = \<lparr>elem_type = T, address = Some a\<rparr>)
   \<and> (metricsInstance w = anyPtr p \<and> elem_type p \<noteq> U \<longrightarrow> address (Metrics U w) = None)"
  using InitMetrics_stores
    [of E ctx serviceName resourceAttrs "\<lparr>elem_type = T, address = Some a\<rparr>" w sh w' a]
  by (auto simp: Metrics_def world0_def)

theorem Metrics_retrieval_witness:
  "address (Metrics ''AppMetrics'' world_example) = None
   \<and> Metrics ''AppMetrics''
        (snd (InitMetrics (ext_example False None) background ''svc'' [] app_metrics world_example))
       = \<lparr>elem_type = ''AppMetrics'', address = Some 1\<rparr>
   \<and> address (Metrics ''OtherMetrics''
        (snd (InitMetrics (ext_example False None) background ''svc'' [] app_metrics world_example)))
       = None"
proof -
  let ?E = "ext_example False None"
  let ?p = "\<lparr>elem_type = ''AppMetrics'', address = Some (1::nat)\<rparr>"
  let ?w' = "snd (InitMetrics ?E background ''svc'' [] app_metrics world_example)"
  have nil: "metricsInstance world_example = nilAny"
    by (simp add: world_example_def world0_def)
  have run: "InitMetrics ?E background ''svc'' [] ?p world_example
      = (Done (Inr (provider_Shutdown ?E MeterProvider)), ?w')"
    using InitMetrics_example_succeeds by (simp add: app_metrics_def)
  have stored: "metricsInstance ?w' = anyPtr ?p"
    using InitMetrics_stores [OF run] by simp
  have other: "elem_type ?p \<noteq> ''OtherMetrics''" by simp
  from Metrics_retrieval
    [of world_example "''AppMetrics''" ?E background "''svc''" "[]" 1
        "provider_Shutdown ?E MeterProvider" ?w']
  have a: "address (Metrics ''AppMetrics'' world_example) = None"
    and b: "Metrics ''AppMetrics'' ?w' = ?p"
    using nil run by blast+
  from Metrics_retrieval [of ?w' "''AppMetrics''" ?E background "''svc''" "[]" 1 _ _ ?p
        "''OtherMetrics''"]
  have c: "address (Metrics ''OtherMetrics'' ?w') = None"
    using stored other by blast
  from a b c show ?thesis by simp
qed

text \<open>
  The nil check guards the pointer only: through a non-nil pointer to a zero-valued
  wrapper struct, whose interface field is nil, the call reaches the SDK method on a
  nil interface and panics.
\<close>

lemma zero_wrapper_struct_panics:
  "Int64Counter_Add (Some (Int64Counter None)) ctx i attrs w = (Panic nil_dereference, w)
   \<and> Int64ObservableCounter_RegisterCallback E (Some (Int64ObservableCounter inst None))
        callback w = (Panic nil_dereference, w)"
  by simp

text \<open>
  Claim C5. On a nil wrapper pointer of each of the fourteen kinds, \<open>Add\<close>,
  \<open>Record\<close>, \<open>Observe\<close> and \<open>RegisterCallback\<close> return without a panic and leave
  the whole state as it was, so the SDK receives no data point and no callback;
  \<open>RegisterCallback\<close> returns no registration and no error.
\<close>

theorem nil_wrapper_methods_are_noops:
  "Int64Counter_Add None ctx i attrs w = (Done (), w)
   \<and> Float64Counter_Add None ctx x attrs w = (Done (), w)
   \<and> Int64UpDownCounter_Add None ctx i attrs w = (Done (), w)
   \<and> Float64UpDownCounter_Add None ctx x attrs w = (Done (), w)
   \<and> Int64ObservableCounter_Observe None observer i attrs w = (Done (), w)
   \<and> Int64ObservableCounter_RegisterCallback E None callback w = (Done (None, None), w)
   \<and> Float64ObservableCounter_Observe None observer x attrs w = (Done (), w)
   \<and> Float64ObservableCounter_RegisterCallback E None callback w = (Done (None, None), w)
   \<and> Int64ObservableUpDownCounter_Observe None observer i attrs w = (Done (), w)
   \<and> Int64ObservableUpDownCounter_RegisterCallback E None callback w = (Done (None, None), w)
   \<and> Float64ObservableUpDownCounter_Observe None observer x attrs w = (Done (), w)
   \<and> Float64ObservableUpDownCounter_RegisterCallback E None callback w = (Done (None, None), w)
   \<and> Int64Gauge_Record None ctx i attrs w = (Done (), w)
   \<and> Float64Gauge_Record None ctx x attrs w = (Done (), w)
   \<and> Int64ObservableGauge_Observe None observer i attrs w = (Done (), w)
   \<and> Int64ObservableGauge_RegisterCallback E None callback w = (Done (None, None), w)
   \<and> Float64ObservableGauge_Observe None observer x attrs w = (Done (), w)
   \<and> Float64ObservableGauge_RegisterCallback E None callback w = (Done (None, None), w)
   \<and> Int64Histogram_Record None ctx i attrs w = (Done (), w)
   \<and> Float64Histogram_Record None ctx x attrs w = (Done (), w)"
  by simp

section \<open>Properties of the logging facade and the unified initializer\<close>


lemma fanout_Handle_written:
  "written (fanout_Handle hs r w) wr
     = written w wr @ map (\<lambda>h. r\<lparr>rec_Attrs := h_Attrs h @ rec_Attrs r\<rparr>)
         (filter (\<lambda>h. h_Enabled h (rec_Level r) \<and> h_Writer h = wr) hs)"
proof (induction hs arbitrary: w)
  case Nil
  then show ?case by simp
next
  case (Cons h hs)
  then show ?case by (simp add: handler_Handle_def)
qed

lemma filter_none_enabled:
  "\<not> list_ex P hs \<Longrightarrow> filter (\<lambda>h. P h \<and> Q h) hs = []"
  by (induction hs) auto

lemma logger_log_written:
  "written (logger_log hs level ctx msg args w) wr
     = written w wr @ map (\<lambda>h. \<lparr>rec_Level = level, rec_Message = msg, rec_Attrs = h_Attrs h @ args\<rparr>)
         (filter (\<lambda>h. h_Enabled h level \<and> h_Writer h = wr) hs)"
  by (simp add: logger_log_def fanout_Handle_written filter_none_enabled)





lemma Level_names_in_range:
  "map_of level_names n = Some l \<Longrightarrow> sint (word_of_int l :: 64 word) = l"
  by (auto simp: level_names_def LevelDebug_def LevelInfo_def LevelWarn_def LevelError_def
      split: if_splits)

lemma no_sign_no_offset:
  "CHR ''+'' \<notin> set s \<Longrightarrow> CHR ''-'' \<notin> set s \<Longrightarrow>
     takeWhile (\<lambda>c. \<not> is_sign c) s = s \<and> dropWhile (\<lambda>c. \<not> is_sign c) s = []"
  by (induction s) (auto simp: is_sign_def)

lemma Level_UnmarshalText_name:
  assumes "CHR ''+'' \<notin> set s" and "CHR ''-'' \<notin> set s"
    and "map_of level_names (ToUpper s) = Some l"
  shows "Level_UnmarshalText s = Inr l"
proof -
  have t: "takeWhile (\<lambda>c. \<not> is_sign c) s = s" and d: "dropWhile (\<lambda>c. \<not> is_sign c) s = []"
    using no_sign_no_offset [OF assms(1,2)] by simp_all
  show ?thesis
    unfolding Level_UnmarshalText_def Level_parse_def Let_def t d
    using assms(3) Level_names_in_range [OF assms(3)] by simp
qed

lemmas level_parse_defs =
  Level_UnmarshalText_def Level_parse_def ToUpper_def level_names_def is_sign_def
  strconv_Atoi_def digit_value_def quote_def LevelDebug_def LevelInfo_def LevelWarn_def
  LevelError_def

text \<open>
  Against claim C9 as stated: the lower-case text \<open>warn\<close> and the text \<open>INFO+2\<close> are
  none of \<open>DEBUG\<close>, \<open>INFO\<close>, \<open>WARN\<close>, \<open>ERROR\<close>, yet \<open>NewJSONHandler\<close> returns no
  error for them: it returns a handler at level \<open>WARN\<close>, and one at level 2.
\<close>

theorem NewJSONHandler_lowercase_counterexample:
  "(\<exists>h. NewJSONHandler (ext_example False None) 0 [] ''warn'' = Inr h
        \<and> h_Enabled h LevelWarn \<and> \<not> h_Enabled h (LevelWarn - 1))
   \<and> (\<exists>h. NewJSONHandler (ext_example False None) 0 [] ''INFO+2'' = Inr h
        \<and> h_Enabled h 2 \<and> \<not> h_Enabled h 1)
   \<and> \<not> (\<exists>err. NewJSONHandler (ext_example False None) 0 [] ''warn'' = Inl err)"
  by (simp add: NewJSONHandler_def ext_example_def level_parse_defs)

text \<open>
  Claim C9, amended. \<open>NewJSONHandler\<close> hands the level text unchanged to the level
  parser of \<open>slog\<close>: it returns an error exactly when the parser does, and the
  parser's error. The parser matches the names \<open>DEBUG\<close>, \<open>INFO\<close>, \<open>WARN\<close>, \<open>ERROR\<close>
  without regard to letter case, so a text that upper-cases to one of them is
  accepted at that level. When the parser returns a level, the handler writes to the
  given writer, a logger over it leaves the state untouched for every record below
  that level, and writes exactly one record, with the resource attributes first, for
  every record at or above it.
\<close>

theorem NewJSONHandler_level:
  "(NewJSONHandler E out resourceAttrs logLevel = Inl err \<longleftrightarrow> UnmarshalText E logLevel = Inl err)
   \<and> (UnmarshalText E logLevel = Inr lv \<longrightarrow>
        (\<exists>h. NewJSONHandler E out resourceAttrs logLevel = Inr h
           \<and> h_Writer h = Writer out
           \<and> (\<forall>level ctx msg args w. level < lv \<longrightarrow> logger_log [h] level ctx msg args w = w)
           \<and> (\<forall>level ctx msg args w. lv \<le> level \<longrightarrow>
                written (logger_log [h] level ctx msg args w) (Writer out)
                  = written w (Writer out) @
                    [\<lparr>rec_Level = level, rec_Message = msg,
                      rec_Attrs = map toSlogAttr resourceAttrs @ args\<rparr>])))
   \<and> (UnmarshalText E = Level_UnmarshalText
        \<and> CHR ''+'' \<notin> set name \<and> CHR ''-'' \<notin> set name
        \<and> map_of level_names (ToUpper name) = Some base
      \<longrightarrow> (\<exists>h. NewJSONHandler E out resourceAttrs name = Inr h
             \<and> (\<forall>l. h_Enabled h l = (base \<le> l))))"
proof -
  have a: "NewJSONHandler E out resourceAttrs logLevel = Inl err \<longleftrightarrow> UnmarshalText E logLevel = Inl err"
    by (simp add: NewJSONHandler_def Let_def split: sum.splits)
  have same: "(\<lambda>attr. (Key (KeyValue attr), AsInterface (Value (KeyValue attr)))) = toSlogAttr"
    by (rule ext) (simp add: toSlogAttr_def)
  have b: "UnmarshalText E logLevel = Inr lv \<longrightarrow>
        (\<exists>h. NewJSONHandler E out resourceAttrs logLevel = Inr h
           \<and> h_Writer h = Writer out
           \<and> (\<forall>level ctx msg args w. level < lv \<longrightarrow> logger_log [h] level ctx msg args w = w)
           \<and> (\<forall>level ctx msg args w. lv \<le> level \<longrightarrow>
                written (logger_log [h] level ctx msg args w) (Writer out)
                  = written w (Writer out) @
                    [\<lparr>rec_Level = level, rec_Message = msg,
                      rec_Attrs = map toSlogAttr resourceAttrs @ args\<rparr>]))"
  proof
    assume p: "UnmarshalText E logLevel = Inr lv"
    let ?h = "\<lparr>h_Enabled = (\<lambda>l. lv \<le> l), h_Attrs = map toSlogAttr resourceAttrs,
               h_Writer = Writer out\<rparr>"
    have 1: "NewJSONHandler E out resourceAttrs logLevel = Inr ?h"
      using p by (simp add: NewJSONHandler_def same)
    have 2: "\<forall>level ctx msg args w. level < lv \<longrightarrow> logger_log [?h] level ctx msg args w = w"
      by (simp add: logger_log_def)
    have 3: "\<forall>level ctx msg args w. lv \<le> level \<longrightarrow>
                written (logger_log [?h] level ctx msg args w) (Writer out)
                  = written w (Writer out) @
                    [\<lparr>rec_Level = level, rec_Message = msg,
                      rec_Attrs = map toSlogAttr resourceAttrs @ args\<rparr>]"
      by (simp add: logger_log_written)
    from 1 2 3 show "\<exists>h. NewJSONHandler E out resourceAttrs logLevel = Inr h
           \<and> h_Writer h = Writer out
           \<and> (\<forall>level ctx msg args w. level < lv \<longrightarrow> logger_log [h] level ctx msg args w = w)
           \<and> (\<forall>level ctx msg args w. lv \<le> level \<longrightarrow>
                written (logger_log [h] level ctx msg args w) (Writer out)
                  = written w (Writer out) @
                    [\<lparr>rec_Level = level, rec_Message = msg,
                      rec_Attrs = map toSlogAttr resourceAttrs @ args\<rparr>])"
      by (intro exI [of _ ?h]) simp
  qed
  have c: "UnmarshalText E = Level_UnmarshalText
        \<and> CHR ''+'' \<notin> set name \<and> CHR ''-'' \<notin> set name
        \<and> map_of level_names (ToUpper name) = Some base
      \<longrightarrow> (\<exists>h. NewJSONHandler E out resourceAttrs name = Inr h
             \<and> (\<forall>l. h_Enabled h l = (base \<le> l)))"
  proof
    assume h: "UnmarshalText E = Level_UnmarshalText
        \<and> CHR ''+'' \<notin> set name \<and> CHR ''-'' \<notin> set name
        \<and> map_of level_names (ToUpper name) = Some base"
    then have "UnmarshalText E name = Inr base"
      using Level_UnmarshalText_name [of name base] by simp
    then show "\<exists>h. NewJSONHandler E out resourceAttrs name = Inr h
             \<and> (\<forall>l. h_Enabled h l = (base \<le> l))"
      by (simp add: NewJSONHandler_def)
  qed
  from a b c show ?thesis by blast
qed

lemma Init_shutdown_result:
  "Init_shutdown sL sM sT c v =
     ((case fst (sL c v) of
         Some e \<Rightarrow> Some e
       | None \<Rightarrow> (case fst (sM c (snd (sL c v))) of
                    Some e \<Rightarrow> Some e
                  | None \<Rightarrow> fst (sT c (snd (sM c (snd (sL c v))))))),
      snd (sT c (snd (sM c (snd (sL c v))))))"
proof -
  obtain eL v1 where L: "sL c v = (eL, v1)" by (cases "sL c v")
  obtain eM v2 where M: "sM c v1 = (eM, v2)" by (cases "sM c v1")
  obtain eT v3 where T: "sT c v2 = (eT, v3)" by (cases "sT c v2")
  show ?thesis
    by (cases eL; cases eM) (simp_all add: Init_shutdown_def L M T)
qed

text \<open>
  Claim C8. \<open>Init\<close> runs tracing, then metrics, then logging. When tracing fails,
  its error is returned and nothing else happens. When metrics fails, the tracing
  shutdown is run, its result dropped, and the metrics error returned. When logging
  fails, the metrics shutdown and then the tracing shutdown are run, their results
  dropped, and the logging error returned. When all three succeed the result is the
  composed shutdown, which runs the logger's, the metrics' and the tracing shutdown
  in that order whatever each returns, and returns the first error among them.
\<close>

theorem Init_sequence:
  "(InitTracing E ctx name attrs w = (Inl e, w1)
      \<longrightarrow> Init E ctx name attrs m lh w = (Done (Inl e), w1))
   \<and> (InitTracing E ctx name attrs w = (Inr sT, w1)
        \<and> InitMetrics E ctx name attrs m w1 = (Done (Inl e), w2)
      \<longrightarrow> Init E ctx name attrs m lh w = (Done (Inl e), snd (sT ctx w2)))
   \<and> (InitTracing E ctx name attrs w = (Inr sT, w1)
        \<and> InitMetrics E ctx name attrs m w1 = (Done (Inr sM), w2)
        \<and> InitLogger E ctx attrs (case lh of None \<Rightarrow> [] | Some h \<Rightarrow> [h]) w2 = (Inl e, w3)
      \<longrightarrow> Init E ctx name attrs m lh w = (Done (Inl e), snd (sT ctx (snd (sM ctx w3)))))
   \<and> (InitTracing E ctx name attrs w = (Inr sT, w1)
        \<and> InitMetrics E ctx name attrs m w1 = (Done (Inr sM), w2)
        \<and> InitLogger E ctx attrs (case lh of None \<Rightarrow> [] | Some h \<Rightarrow> [h]) w2 = (Inr sL, w3)
      \<longrightarrow> Init E ctx name attrs m lh w = (Done (Inr (Init_shutdown sL sM sT)), w3))
   \<and> (\<forall>c v. Init_shutdown sL sM sT c v =
        ((case fst (sL c v) of
            Some e \<Rightarrow> Some e
          | None \<Rightarrow> (case fst (sM c (snd (sL c v))) of
                       Some e \<Rightarrow> Some e
                     | None \<Rightarrow> fst (sT c (snd (sM c (snd (sL c v))))))),
         snd (sT c (snd (sM c (snd (sL c v)))))))"
proof -
  have 1: "InitTracing E ctx name attrs w = (Inl e, w1)
      \<longrightarrow> Init E ctx name attrs m lh w = (Done (Inl e), w1)"
    by (simp add: Init_def)
  have 2: "InitTracing E ctx name attrs w = (Inr sT, w1)
        \<and> InitMetrics E ctx name attrs m w1 = (Done (Inl e), w2)
      \<longrightarrow> Init E ctx name attrs m lh w = (Done (Inl e), snd (sT ctx w2))"
    by (simp add: Init_def split: prod.splits)
  have 3: "InitTracing E ctx name attrs w = (Inr sT, w1)
        \<and> InitMetrics E ctx name attrs m w1 = (Done (Inr sM), w2)
        \<and> InitLogger E ctx attrs (case lh of None \<Rightarrow> [] | Some h \<Rightarrow> [h]) w2 = (Inl e, w3)
      \<longrightarrow> Init E ctx name attrs m lh w = (Done (Inl e), snd (sT ctx (snd (sM ctx w3))))"
    by (cases lh) (simp_all add: Init_def split: prod.splits)
  have 4: "InitTracing E ctx name attrs w = (Inr sT, w1)
        \<and> InitMetrics E ctx name attrs m w1 = (Done (Inr sM), w2)
        \<and> InitLogger E ctx attrs (case lh of None \<Rightarrow> [] | Some h \<Rightarrow> [h]) w2 = (Inr sL, w3)
      \<longrightarrow> Init E ctx name attrs m lh w = (Done (Inr (Init_shutdown sL sM sT)), w3)"
    by (cases lh) (simp_all add: Init_def split: prod.splits)
  from 1 2 3 4 Init_shutdown_result show ?thesis by blast
qed


lemmas init_example_defs =
  InitTracing_def InitLogger_def grpcLogHandler_def newGrpcTraceExporter_def
  newHttpTraceExporter_def newGrpcMetricExporter_def newHttpMetricExporter_def
  newGrpcLogger_def newHttpLogger_def provider_Shutdown_def

lemma InitTracing_example_fails: "InitTracing (ext_example True (Some TracerProvider)) background ''svc'' [] world_example
   = (Inl ''exporter: connection refused'', world_example)"
  by (simp add: init_example_defs ext_example_def)

lemma InitTracing_example_succeeds: "failing \<noteq> Some TracerProvider \<Longrightarrow> InitTracing (ext_example True failing) background ''svc'' [] world_example
   = (Inr (provider_Shutdown (ext_example True failing) TracerProvider), world_example\<lparr>tracer := sdkTracer ''svc''\<rparr>)"
  by (simp add: InitTracing_def newGrpcTraceExporter_def ext_example_def Let_def)

lemma InitMetrics_example_exporter_fails: "InitMetrics (ext_example True (Some MeterProvider)) background ''svc'' [] app_metrics w
   = (Done (Inl ''exporter: connection refused''), w)"
  by (simp add: InitMetrics_def newGrpcMetricExporter_def ext_example_def Let_def)

lemma InitMetrics_example_endpoint_succeeds: "failing \<noteq> Some MeterProvider \<Longrightarrow> InitMetrics (ext_example True failing) background ''svc'' [] app_metrics (world_example\<lparr>tracer := sdkTracer ''svc''\<rparr>)
   = (Done (Inr (provider_Shutdown (ext_example True failing) MeterProvider)),
      snd (InitMetrics (ext_example True failing) background ''svc'' [] app_metrics (world_example\<lparr>tracer := sdkTracer ''svc''\<rparr>)))"
  by (simp add: metrics_example_defs newGrpcMetricExporter_def)

lemma InitMetrics_example_shutdowns: "failing \<noteq> Some MeterProvider \<Longrightarrow> shutdowns (snd (InitMetrics (ext_example True failing) background ''svc'' [] app_metrics (world_example\<lparr>tracer := sdkTracer ''svc''\<rparr>))) = []"
  by (simp add: metrics_example_defs newGrpcMetricExporter_def)

lemma InitLogger_example_fails: "InitLogger (ext_example True (Some LoggerProvider)) background [] [handler_example] w
   = (Inl ''exporter: connection refused'', w)"
  by (simp add: InitLogger_def grpcLogHandler_def newGrpcLogger_def ext_example_def Let_def)

lemma InitLogger_example_succeeds: "InitLogger (ext_example True None) background [] [handler_example] w
   = (Inr (provider_Shutdown (ext_example True None) LoggerProvider), 
      snd (InitLogger (ext_example True None) background [] [handler_example] w))"
  by (simp add: InitLogger_def grpcLogHandler_def newGrpcLogger_def ext_example_def Let_def)

lemma InitLogger_example_shutdowns: "shutdowns (snd (InitLogger (ext_example True None) background [] [handler_example] w)) = shutdowns w"
  by (simp add: InitLogger_def grpcLogHandler_def newGrpcLogger_def ext_example_def Let_def)

theorem Init_sequence_witness:
  "Init (ext_example True (Some TracerProvider)) background ''svc'' [] app_metrics
       (Some handler_example) world_example
     = (Done (Inl ''exporter: connection refused''), world_example)
   \<and> fst (Init (ext_example True (Some MeterProvider)) background ''svc'' [] app_metrics
       (Some handler_example) world_example) = Done (Inl ''exporter: connection refused'')
   \<and> shutdowns (snd (Init (ext_example True (Some MeterProvider)) background ''svc'' []
       app_metrics (Some handler_example) world_example)) = [TracerProvider]
   \<and> fst (Init (ext_example True (Some LoggerProvider)) background ''svc'' [] app_metrics
       (Some handler_example) world_example) = Done (Inl ''exporter: connection refused'')
   \<and> shutdowns (snd (Init (ext_example True (Some LoggerProvider)) background ''svc'' []
       app_metrics (Some handler_example) world_example)) = [MeterProvider, TracerProvider]
   \<and> (\<exists>sh w'. Init (ext_example True None) background ''svc'' [] app_metrics
         (Some handler_example) world_example = (Done (Inr sh), w')
        \<and> fst (sh background w') = Some ''logger provider: flush failed''
        \<and> shutdowns (snd (sh background w')) = [LoggerProvider, MeterProvider, TracerProvider])"
proof -
  let ?w1 = "world_example\<lparr>tracer := sdkTracer ''svc''\<rparr>"
  have sd0: "shutdowns world_example = []"
    by (simp add: world_example_def world0_def)
  let ?E1 = "ext_example True (Some TracerProvider)"
  from Init_sequence [of ?E1 background "''svc''" "[]" world_example
      "''exporter: connection refused''" world_example app_metrics "Some handler_example"]
  have r1: "Init ?E1 background ''svc'' [] app_metrics (Some handler_example) world_example
      = (Done (Inl ''exporter: connection refused''), world_example)"
    using InitTracing_example_fails by blast
  let ?E2 = "ext_example True (Some MeterProvider)"
  have t2: "InitTracing ?E2 background ''svc'' [] world_example
      = (Inr (provider_Shutdown ?E2 TracerProvider), ?w1)"
    by (rule InitTracing_example_succeeds) simp
  from Init_sequence [of ?E2 background "''svc''" "[]" world_example
      "''exporter: connection refused''" ?w1 app_metrics "Some handler_example"
      "provider_Shutdown ?E2 TracerProvider" ?w1]
  have r2: "Init ?E2 background ''svc'' [] app_metrics (Some handler_example) world_example
      = (Done (Inl ''exporter: connection refused''),
         snd (provider_Shutdown ?E2 TracerProvider background ?w1))"
    using t2 InitMetrics_example_exporter_fails by blast
  let ?E3 = "ext_example True (Some LoggerProvider)"
  let ?w2 = "snd (InitMetrics ?E3 background ''svc'' [] app_metrics ?w1)"
  have t3: "InitTracing ?E3 background ''svc'' [] world_example
      = (Inr (provider_Shutdown ?E3 TracerProvider), ?w1)"
    by (rule InitTracing_example_succeeds) simp
  have m3: "InitMetrics ?E3 background ''svc'' [] app_metrics ?w1
      = (Done (Inr (provider_Shutdown ?E3 MeterProvider)), ?w2)"
    by (rule InitMetrics_example_endpoint_succeeds) simp
  have l3: "InitLogger ?E3 background [] (case Some handler_example of None \<Rightarrow> [] | Some h \<Rightarrow> [h]) ?w2
      = (Inl ''exporter: connection refused'', ?w2)"
    by (simp add: InitLogger_example_fails)
  from Init_sequence [of ?E3 background "''svc''" "[]" world_example
      "''exporter: connection refused''" ?w1 app_metrics "Some handler_example"
      "provider_Shutdown ?E3 TracerProvider" ?w2 "provider_Shutdown ?E3 MeterProvider" ?w2]
  have r3: "Init ?E3 background ''svc'' [] app_metrics (Some handler_example) world_example
      = (Done (Inl ''exporter: connection refused''),
         snd (provider_Shutdown ?E3 TracerProvider background
           (snd (provider_Shutdown ?E3 MeterProvider background ?w2))))"
    using t3 m3 l3 by blast
  have sd3: "shutdowns ?w2 = []"
    by (rule InitMetrics_example_shutdowns) simp
  let ?E4 = "ext_example True None"
  let ?v2 = "snd (InitMetrics ?E4 background ''svc'' [] app_metrics ?w1)"
  let ?v3 = "snd (InitLogger ?E4 background [] [handler_example] ?v2)"
  let ?sh = "Init_shutdown (provider_Shutdown ?E4 LoggerProvider)
      (provider_Shutdown ?E4 MeterProvider) (provider_Shutdown ?E4 TracerProvider)"
  have t4: "InitTracing ?E4 background ''svc'' [] world_example
      = (Inr (provider_Shutdown ?E4 TracerProvider), ?w1)"
    by (rule InitTracing_example_succeeds) simp
  have m4: "InitMetrics ?E4 background ''svc'' [] app_metrics ?w1
      = (Done (Inr (provider_Shutdown ?E4 MeterProvider)), ?v2)"
    by (rule InitMetrics_example_endpoint_succeeds) simp
  have l4: "InitLogger ?E4 background [] (case Some handler_example of None \<Rightarrow> [] | Some h \<Rightarrow> [h]) ?v2
      = (Inr (provider_Shutdown ?E4 LoggerProvider), ?v3)"
    using InitLogger_example_succeeds [of ?v2] by simp
  note seq4 = Init_sequence [of ?E4 background "''svc''" "[]" world_example
      _ ?w1 app_metrics "Some handler_example"
      "provider_Shutdown ?E4 TracerProvider" ?v2 "provider_Shutdown ?E4 MeterProvider" ?v3
      "provider_Shutdown ?E4 LoggerProvider"]
  from seq4 have r4: "Init ?E4 background ''svc'' [] app_metrics (Some handler_example) world_example
      = (Done (Inr ?sh), ?v3)"
    using t4 m4 l4 by blast
  from seq4 have s4: "?sh background ?v3 =
        ((case fst (provider_Shutdown ?E4 LoggerProvider background ?v3) of
            Some e \<Rightarrow> Some e
          | None \<Rightarrow> (case fst (provider_Shutdown ?E4 MeterProvider background
                          (snd (provider_Shutdown ?E4 LoggerProvider background ?v3))) of
                       Some e \<Rightarrow> Some e
                     | None \<Rightarrow> fst (provider_Shutdown ?E4 TracerProvider background
                          (snd (provider_Shutdown ?E4 MeterProvider background
                            (snd (provider_Shutdown ?E4 LoggerProvider background ?v3))))))),
         snd (provider_Shutdown ?E4 TracerProvider background
               (snd (provider_Shutdown ?E4 MeterProvider background
                 (snd (provider_Shutdown ?E4 LoggerProvider background ?v3))))))"
    by blast
  have sd4: "shutdowns ?v3 = []"
    using InitMetrics_example_shutdowns [of None] by (simp add: InitLogger_example_shutdowns)
  have e4: "fst (?sh background ?v3) = Some ''logger provider: flush failed''"
    unfolding s4 by (simp add: provider_Shutdown_def ext_example_def)
  have o4: "shutdowns (snd (?sh background ?v3)) = [LoggerProvider, MeterProvider, TracerProvider]"
    unfolding s4 by (simp add: provider_Shutdown_def sd4)
  have last: "\<exists>sh w'. Init ?E4 background ''svc'' [] app_metrics
         (Some handler_example) world_example = (Done (Inr sh), w')
        \<and> fst (sh background w') = Some ''logger provider: flush failed''
        \<and> shutdowns (snd (sh background w')) = [LoggerProvider, MeterProvider, TracerProvider]"
    using r4 e4 o4 by blast
  have a2: "shutdowns (snd (provider_Shutdown ?E2 TracerProvider background ?w1)) = [TracerProvider]"
    by (simp add: provider_Shutdown_def sd0)
  have a3: "shutdowns (snd (provider_Shutdown ?E3 TracerProvider background
           (snd (provider_Shutdown ?E3 MeterProvider background ?w2)))) = [MeterProvider, TracerProvider]"
    by (simp add: provider_Shutdown_def sd3)
  show ?thesis
    using r1 r2 r3 a2 a3 last by simp
qed



theorem NewJSONHandler_level_witness:
  "NewJSONHandler (ext_example False None) 0 [Attr (attribute_String ''service.name'' ''svc'')]
       ''LOUD''
     = Inl (''slog: level string '' @ quote ''LOUD'' @ '': unknown name'')
   \<and> (\<exists>h. NewJSONHandler (ext_example False None) 0
            [Attr (attribute_String ''service.name'' ''svc'')] ''WARN'' = Inr h
        \<and> logger_log [h] LevelInfo background ''info message'' [] world0 = world0
        \<and> written (logger_log [h] LevelWarn background ''warning message'' [] world0) (Writer 0)
            = [\<lparr>rec_Level = LevelWarn, rec_Message = ''warning message'',
                rec_Attrs = [(''service.name'', AnyString ''svc'')]\<rparr>])
   \<and> (\<exists>h. NewJSONHandler (ext_example False None) 0
            [Attr (attribute_String ''service.name'' ''svc'')] ''Error'' = Inr h
        \<and> h_Enabled h LevelError \<and> \<not> h_Enabled h LevelWarn)"
proof -
  let ?E = "ext_example False None"
  let ?ra = "[Attr (attribute_String ''service.name'' ''svc'')]"
  let ?bad = "''slog: level string '' @ quote ''LOUD'' @ '': unknown name''"
  have bad: "UnmarshalText ?E ''LOUD'' = Inl ?bad"
    by (simp add: ext_example_def level_parse_defs)
  have good: "UnmarshalText ?E ''WARN'' = Inr LevelWarn"
    by (simp add: ext_example_def level_parse_defs)
  have parser: "UnmarshalText ?E = Level_UnmarshalText"
    by (simp add: ext_example_def)
  have name: "CHR ''+'' \<notin> set ''Error'' \<and> CHR ''-'' \<notin> set ''Error''
      \<and> map_of level_names (ToUpper ''Error'') = Some LevelError"
    by (simp add: ToUpper_def level_names_def)
  from NewJSONHandler_level [of ?E 0 ?ra "''LOUD''" ?bad]
  have a: "NewJSONHandler ?E 0 ?ra ''LOUD'' = Inl ?bad"
    using bad by blast
  from NewJSONHandler_level [of ?E 0 ?ra "''WARN''" _ LevelWarn] good
  obtain h where h: "NewJSONHandler ?E 0 ?ra ''WARN'' = Inr h"
    and below: "\<forall>level ctx msg args w. level < LevelWarn \<longrightarrow> logger_log [h] level ctx msg args w = w"
    and above: "\<forall>level ctx msg args w. LevelWarn \<le> level \<longrightarrow>
                written (logger_log [h] level ctx msg args w) (Writer 0)
                  = written w (Writer 0) @
                    [\<lparr>rec_Level = level, rec_Message = msg,
                      rec_Attrs = map toSlogAttr ?ra @ args\<rparr>]"
    by blast
  have lt: "LevelInfo < LevelWarn" by (simp add: LevelInfo_def LevelWarn_def)
  from below lt have b: "logger_log [h] LevelInfo background ''info message'' [] world0 = world0"
    by blast
  from above have "written (logger_log [h] LevelWarn background ''warning message'' [] world0) (Writer 0)
      = written world0 (Writer 0) @
          [\<lparr>rec_Level = LevelWarn, rec_Message = ''warning message'',
            rec_Attrs = map toSlogAttr ?ra @ []\<rparr>]"
    by blast
  then have c: "written (logger_log [h] LevelWarn background ''warning message'' [] world0) (Writer 0)
      = [\<lparr>rec_Level = LevelWarn, rec_Message = ''warning message'',
            rec_Attrs = [(''service.name'', AnyString ''svc'')]\<rparr>]"
    by (simp add: world0_def toSlogAttr_def attribute_String_def)
  from NewJSONHandler_level [of ?E 0 ?ra _ _ _ "''Error''" LevelError] parser name
  obtain h' where h': "NewJSONHandler ?E 0 ?ra ''Error'' = Inr h'"
    and en: "\<forall>l. h_Enabled h' l = (LevelError \<le> l)"
    by blast
  from en have d: "h_Enabled h' LevelError \<and> \<not> h_Enabled h' LevelWarn"
    by (simp add: LevelError_def LevelWarn_def)
  from a h b c h' d show ?thesis by blast
qed

section \<open>Properties of the tracing facade\<close>


lemma split_on_no_sep: "c \<notin> set s \<Longrightarrow> split_on c s = [s]"
  by (induction s) (auto split: list.splits)

lemma split_on_append: "c \<notin> set a \<Longrightarrow> split_on c (a @ c # rest) = a # split_on c rest"
  by (induction a) (auto split: list.splits)

lemma hex_not_dash: "list_all is_hex s \<Longrightarrow> CHR ''-'' \<notin> set s"
  by (induction s) (auto simp: is_hex_def)

lemma valid_id_no_dash: "valid_id n s \<Longrightarrow> CHR ''-'' \<notin> set s"
  by (simp add: valid_id_def hex_not_dash)

lemma parse_traceparent_roundtrip:
  assumes "IsValid sc"
  shows "parse_traceparent (traceparent sc) = Some (sc\<lparr>Remote := True\<rparr>)"
proof -
  have t: "CHR ''-'' \<notin> set (TraceID sc)" and s: "CHR ''-'' \<notin> set (SpanID sc)"
    using assms by (auto simp: IsValid_def dest: valid_id_no_dash)
  have v: "CHR ''-'' \<notin> set ''00''" "CHR ''-'' \<notin> set ''01''" by simp_all
  have "split_on CHR ''-'' (traceparent sc)
      = [''00'', TraceID sc, SpanID sc, (if Sampled sc then ''01'' else ''00'')]"
    unfolding traceparent_def
    using split_on_append [OF v(1), of "TraceID sc @ ''-'' @ SpanID sc @ ''-'' @ (if Sampled sc then ''01'' else ''00'')"]
      split_on_append [OF t, of "SpanID sc @ ''-'' @ (if Sampled sc then ''01'' else ''00'')"]
      split_on_append [OF s, of "(if Sampled sc then ''01'' else ''00'')"]
      split_on_no_sep [OF v(1)] split_on_no_sep [OF v(2)]
    by (simp del: split_on.simps)
  then show ?thesis
    using assms by (simp add: parse_traceparent_def IsValid_def)
qed

lemma NewSpan_context:
  assumes "NewSpan E ctx name attrs w = ((ctx', Span (Some s)), w1)"
  shows "SpanFromContext ctx' = s"
proof (cases "tracer w")
  case noopTracer
  with assms show ?thesis
    by (auto simp: NewSpan_def newSpan_def Let_def SpanFromContext_def ContextWithSpan_def)
next
  case (sdkTracer scope)
  with assms show ?thesis
    by (auto simp: NewSpan_def newSpan_def Let_def SpanFromContext_def ContextWithSpan_def)
qed

lemma TraceHeaders_valid:
  "IsValid (SpanContextOf (SpanFromContext ctx)) \<Longrightarrow>
     TraceHeaders ctx ''traceparent'' = Some (traceparent (SpanContextOf (SpanFromContext ctx)))"
  by (simp add: TraceHeaders_def propagator_Inject_def Let_def)

lemma Extract_TraceHeaders:
  assumes "IsValid (SpanContextOf (SpanFromContext ctx))"
  shows "SpanContextOf (SpanFromContext (propagator_Extract ctx0 (TraceHeaders ctx)))
     = (SpanContextOf (SpanFromContext ctx))\<lparr>Remote := True\<rparr>"
  using assms
  by (simp add: propagator_Extract_def TraceHeaders_valid parse_traceparent_roundtrip
      ContextWithSpan_def SpanFromContext_def)

lemma IsValid_Remote: "IsValid (sc\<lparr>Remote := r\<rparr>) = IsValid sc"
  by (simp add: IsValid_def)

text \<open>
  Claim C7. For a context returned by \<open>NewSpan\<close> whose span has a valid span
  context, \<open>TraceHeaders\<close> holds the key \<open>traceparent\<close> (with the W3C encoding of
  that span context); and \<open>NewChildSpan\<close> on any context with that mapping, under a
  tracer of the SDK, starts a span whose recorded parent has the span id of the
  original span, in the same trace.
\<close>

theorem trace_propagation_roundtrip:
  assumes "NewSpan E ctx name attrs w = ((ctx', Span (Some s)), w1)"
    and "IsValid (SpanContextOf s)"
    and "tracer w2 = sdkTracer scope"
  shows "TraceHeaders ctx' ''traceparent'' = Some (traceparent (SpanContextOf s))
     \<and> (\<exists>ctx'' sc w3.
           NewChildSpan E ctx0 (TraceHeaders ctx') name2 attrs2 w2
             = ((ctx'', Span (Some (recordingSpan (length (spans w2)) sc))), w3)
           \<and> SpanID (sd_parent (spans w3 ! length (spans w2))) = SpanID (SpanContextOf s)
           \<and> TraceID (sd_context (spans w3 ! length (spans w2))) = TraceID (SpanContextOf s))"
proof -
  have c: "SpanFromContext ctx' = s"
    using assms(1) by (rule NewSpan_context)
  have v: "IsValid (SpanContextOf (SpanFromContext ctx'))"
    using assms(2) c by simp
  have h: "TraceHeaders ctx' ''traceparent'' = Some (traceparent (SpanContextOf s))"
    using TraceHeaders_valid [OF v] c by simp
  have x: "SpanContextOf (SpanFromContext (propagator_Extract ctx0 (TraceHeaders ctx')))
      = (SpanContextOf s)\<lparr>Remote := True\<rparr>"
    using Extract_TraceHeaders [OF v] c by simp
  have child: "\<exists>ctx'' sc w3.
           NewChildSpan E ctx0 (TraceHeaders ctx') name2 attrs2 w2
             = ((ctx'', Span (Some (recordingSpan (length (spans w2)) sc))), w3)
           \<and> SpanID (sd_parent (spans w3 ! length (spans w2))) = SpanID (SpanContextOf s)
           \<and> TraceID (sd_context (spans w3 ! length (spans w2))) = TraceID (SpanContextOf s)"
    using assms(2,3) x
    by (simp add: NewChildSpan_def newSpan_def Let_def IsValid_Remote)
  from h child show ?thesis by blast
qed

text \<open>
  Claim C3. On a recording span that has not ended, \<open>SetStatus(StatusOk, description)\<close>
  returns without a panic and leaves the span with status code \<open>Ok\<close> and the empty
  description, whatever description was passed.
\<close>

theorem SetStatus_Ok_discards_description:
  assumes "i < length (spans w)" and "\<not> sd_ended (spans w ! i)"
  shows "\<exists>w'. Span_SetStatus (Span (Some (recordingSpan i sc))) StatusOk description w
            = (Done (), w')
     \<and> sd_status_code (spans w' ! i) = codes_Ok
     \<and> sd_status_description (spans w' ! i) = []"
  using assms by (simp add: update_span_def StatusOk_def codes_Ok_def)

text \<open>
  Claim C10. The package variable \<open>tracer\<close> starts as the no-op tracer and a failed
  \<open>InitTracing\<close> leaves it as it is. While it is the no-op tracer, \<open>NewSpan\<close>
  returns a span handle without changing the state, and \<open>AddEvent\<close>, \<open>SetStatus\<close>,
  \<open>SetAttributes\<close>, \<open>RecordError\<close> and \<open>End\<close> on that handle return without a panic
  and leave any state exactly as it was: nothing is recorded and nothing exported.
\<close>

theorem tracing_before_init_is_noop:
  "tracer world0 = noopTracer
   \<and> (InitTracing E ctx serviceName resourceAttrs w = (Inl e, w') \<longrightarrow> tracer w' = tracer w)
   \<and> (tracer w = noopTracer \<longrightarrow>
        (\<exists>ctx' ts. NewSpan E ctx name attrs w = ((ctx', Span (Some ts)), w)
           \<and> Span_AddEvent (Span (Some ts)) ev evattrs v = (Done (), v)
           \<and> Span_SetStatus (Span (Some ts)) code description v = (Done (), v)
           \<and> Span_SetAttributes (Span (Some ts)) sattrs v = (Done (), v)
           \<and> Span_RecordError (Span (Some ts)) err v = (Done (), v)
           \<and> Span_End (Span (Some ts)) v = (Done (), v)))"
proof -
  have 1: "tracer world0 = noopTracer" by (simp add: world0_def)
  have 2: "InitTracing E ctx serviceName resourceAttrs w = (Inl e, w') \<longrightarrow> tracer w' = tracer w"
    by (auto simp: InitTracing_def Let_def split: option.splits if_splits)
  have 3: "tracer w = noopTracer \<longrightarrow>
        (\<exists>ctx' ts. NewSpan E ctx name attrs w = ((ctx', Span (Some ts)), w)
           \<and> Span_AddEvent (Span (Some ts)) ev evattrs v = (Done (), v)
           \<and> Span_SetStatus (Span (Some ts)) code description v = (Done (), v)
           \<and> Span_SetAttributes (Span (Some ts)) sattrs v = (Done (), v)
           \<and> Span_RecordError (Span (Some ts)) err v = (Done (), v)
           \<and> Span_End (Span (Some ts)) v = (Done (), v))"
  proof
    assume n: "tracer w = noopTracer"
    let ?ts = "nonRecordingSpan (SpanContextOf (SpanFromContext ctx))"
    have a: "NewSpan E ctx name attrs w = ((ContextWithSpan ctx ?ts, Span (Some ?ts)), w)"
      using n by (simp add: NewSpan_def newSpan_def Let_def)
    have b: "Span_RecordError (Span (Some ?ts)) err v = (Done (), v)"
      by (cases err) simp_all
    from a b show "\<exists>ctx' ts. NewSpan E ctx name attrs w = ((ctx', Span (Some ts)), w)
           \<and> Span_AddEvent (Span (Some ts)) ev evattrs v = (Done (), v)
           \<and> Span_SetStatus (Span (Some ts)) code description v = (Done (), v)
           \<and> Span_SetAttributes (Span (Some ts)) sattrs v = (Done (), v)
           \<and> Span_RecordError (Span (Some ts)) err v = (Done (), v)
           \<and> Span_End (Span (Some ts)) v = (Done (), v)"
      by (intro exI [of _ "ContextWithSpan ctx ?ts"] exI [of _ ?ts]) simp
  qed
  from 1 2 3 show ?thesis by blast
qed


lemma parent_context_valid: "IsValid parent_context"
  by (simp add: parent_context_def IsValid_def valid_id_def is_hex_def)

lemma world_tracing_tracer: "tracer world_tracing = sdkTracer ''svc''"
  by (simp add: world_tracing_def InitTracing_def ext_example_def Let_def)

lemma world_tracing_spans: "spans world_tracing = [] \<and> ids_used world_tracing = 0"
  by (simp add: world_tracing_def InitTracing_def ext_example_def Let_def world0_def)

lemma NewSpan_parent_example:
  "NewSpan (ext_example False None) background ''parent-span'' [] world_tracing
     = ((\<lparr>ctx_span = Some (recordingSpan 0 parent_context)\<rparr>,
         Span (Some (recordingSpan 0 parent_context))), world_parent)"
proof -
  have "fst (NewSpan (ext_example False None) background ''parent-span'' [] world_tracing)
      = (\<lparr>ctx_span = Some (recordingSpan 0 parent_context)\<rparr>,
         Span (Some (recordingSpan 0 parent_context)))"
    by (simp add: NewSpan_def newSpan_def world_tracing_tracer world_tracing_spans Let_def
        background_def SpanFromContext_def emptySpanContext_def IsValid_def valid_id_def
        ContextWithSpan_def parent_context_def ext_example_def)
  then show ?thesis
    by (simp add: world_parent_def prod_eq_iff)
qed

lemma world_parent_state:
  "tracer world_parent = sdkTracer ''svc'' \<and> length (spans world_parent) = 1
   \<and> \<not> sd_ended (spans world_parent ! 0)"
  by (simp add: world_parent_def NewSpan_def newSpan_def world_tracing_tracer
      world_tracing_spans Let_def)

theorem trace_propagation_roundtrip_witness:
  "TraceHeaders \<lparr>ctx_span = Some (recordingSpan 0 parent_context)\<rparr> ''traceparent''
     = Some ''00-0af7651916cd43dd8448eb211c80319c-b7ad6b7169203331-01''
   \<and> (\<exists>ctx'' sc w3.
         NewChildSpan (ext_example False None) background
            (TraceHeaders \<lparr>ctx_span = Some (recordingSpan 0 parent_context)\<rparr>)
            ''child-span'' [] world_parent
           = ((ctx'', Span (Some (recordingSpan 1 sc))), w3)
         \<and> SpanID (sd_parent (spans w3 ! 1)) = ''b7ad6b7169203331'')"
proof -
  have v: "IsValid (SpanContextOf (recordingSpan 0 parent_context))"
    using parent_context_valid by simp
  have t: "tracer world_parent = sdkTracer ''svc''"
    using world_parent_state by simp
  have n: "length (spans world_parent) = 1"
    using world_parent_state by simp
  from trace_propagation_roundtrip [OF NewSpan_parent_example v t,
      of background "''child-span''" "[]"]
  have h: "TraceHeaders \<lparr>ctx_span = Some (recordingSpan 0 parent_context)\<rparr> ''traceparent''
      = Some (traceparent (SpanContextOf (recordingSpan 0 parent_context)))"
    and c: "\<exists>ctx'' sc w3.
         NewChildSpan (ext_example False None) background
            (TraceHeaders \<lparr>ctx_span = Some (recordingSpan 0 parent_context)\<rparr>)
            ''child-span'' [] world_parent
           = ((ctx'', Span (Some (recordingSpan (length (spans world_parent)) sc))), w3)
         \<and> SpanID (sd_parent (spans w3 ! length (spans world_parent)))
            = SpanID (SpanContextOf (recordingSpan 0 parent_context))
         \<and> TraceID (sd_context (spans w3 ! length (spans world_parent)))
            = TraceID (SpanContextOf (recordingSpan 0 parent_context))"
    by blast+
  have h': "TraceHeaders \<lparr>ctx_span = Some (recordingSpan 0 parent_context)\<rparr> ''traceparent''
      = Some ''00-0af7651916cd43dd8448eb211c80319c-b7ad6b7169203331-01''"
    using h by (simp add: traceparent_def parent_context_def)
  have id: "SpanID (SpanContextOf (recordingSpan 0 parent_context)) = ''b7ad6b7169203331''"
    by (simp add: parent_context_def)
  from c have c': "\<exists>ctx'' sc w3.
         NewChildSpan (ext_example False None) background
            (TraceHeaders \<lparr>ctx_span = Some (recordingSpan 0 parent_context)\<rparr>)
            ''child-span'' [] world_parent
           = ((ctx'', Span (Some (recordingSpan 1 sc))), w3)
         \<and> SpanID (sd_parent (spans w3 ! 1)) = ''b7ad6b7169203331''"
    unfolding n id by blast
  from h' c' show ?thesis by blast
qed

theorem SetStatus_Ok_discards_description_witness:
  "\<exists>w'. Span_SetStatus (Span (Some (recordingSpan 0 parent_context))) StatusOk
            ''operation completed'' world_parent = (Done (), w')
     \<and> sd_status_code (spans w' ! 0) = 2
     \<and> sd_status_description (spans w' ! 0) = []"
proof -
  have a: "0 < length (spans world_parent)" and b: "\<not> sd_ended (spans world_parent ! 0)"
    using world_parent_state by simp_all
  from SetStatus_Ok_discards_description [OF a b, of parent_context "''operation completed''"]
  show ?thesis by (simp add: codes_Ok_def)
qed

theorem tracing_before_init_is_noop_witness:
  "tracer (snd (InitTracing (ext_example True (Some TracerProvider)) background ''svc'' []
       world0)) = noopTracer
   \<and> (\<exists>ctx' ts. NewSpan (ext_example True (Some TracerProvider)) background ''operation''
           [Attr (attribute_String ''user_id'' ''123'')] world0 = ((ctx', Span (Some ts)), world0)
        \<and> Span_AddEvent (Span (Some ts)) ''started'' [] world0 = (Done (), world0)
        \<and> Span_SetStatus (Span (Some ts)) StatusError ''failed'' world0 = (Done (), world0)
        \<and> Span_SetAttributes (Span (Some ts)) [Attr (attribute_Bool ''k'' True)] world0
            = (Done (), world0)
        \<and> Span_RecordError (Span (Some ts)) (Some ''boom'') world0 = (Done (), world0)
        \<and> Span_End (Span (Some ts)) world0 = (Done (), world0))"
proof -
  let ?E = "ext_example True (Some TracerProvider)"
  have f: "InitTracing ?E background ''svc'' [] world0
      = (Inl ''exporter: connection refused'', world0)"
    by (simp add: InitTracing_def newGrpcTraceExporter_def ext_example_def Let_def)
  note th = tracing_before_init_is_noop [of ?E background "''svc''" "[]" world0
      "''exporter: connection refused''" world0
      "''operation''" "[Attr (attribute_String ''user_id'' ''123'')]" "''started''" "[]" world0
      StatusError "''failed''" "[Attr (attribute_Bool ''k'' True)]" "Some ''boom''"]
  from th have n0: "tracer world0 = noopTracer" by blast
  from th f have a: "tracer (snd (InitTracing ?E background ''svc'' [] world0)) = noopTracer"
    using n0 by simp
  from th n0 have b: "\<exists>ctx' ts. NewSpan ?E background ''operation''
           [Attr (attribute_String ''user_id'' ''123'')] world0 = ((ctx', Span (Some ts)), world0)
        \<and> Span_AddEvent (Span (Some ts)) ''started'' [] world0 = (Done (), world0)
        \<and> Span_SetStatus (Span (Some ts)) StatusError ''failed'' world0 = (Done (), world0)
        \<and> Span_SetAttributes (Span (Some ts)) [Attr (attribute_Bool ''k'' True)] world0
            = (Done (), world0)
        \<and> Span_RecordError (Span (Some ts)) (Some ''boom'') world0 = (Done (), world0)
        \<and> Span_End (Span (Some ts)) world0 = (Done (), world0)"
    by blast
  from a b show ?thesis by blast
qed

end
